theory Spec2Isabelle
  imports Complex_Main "HOL-Library.AList"
begin

section \<open>The TinyImageNet loader of \<^verbatim>\<open>code/data_utils.py\<close>\<close>

text \<open>
  The theory embeds \<^verbatim>\<open>load_tiny_imagenet\<close>. Everything the function takes from its
  environment is a field of a \<open>filesystem\<close> record: the lines that iterating an opened text
  file yields, what \<^verbatim>\<open>imread\<close> decodes at a path, and what \<^verbatim>\<open>os.listdir\<close> returns for a
  directory. Every Python exception is a value of \<open>error\<close>, and every stage returns
  \<open>error + 'a\<close>, the first error ending the load as the exception does.
  Progress output (\<^verbatim>\<open>print\<close>, \<^verbatim>\<open>tqdm\<close>) has no effect on the result and is left out.
\<close>

subsection \<open>Errors\<close>

datatype error =
    FileNotFound string
  | DecodeError string
  | ValueError
  | KeyError string
  | TypeError

definition rbind :: "error + 'a \<Rightarrow> ('a \<Rightarrow> error + 'b) \<Rightarrow> error + 'b" where
  "rbind m f = (case m of Inl e \<Rightarrow> Inl e | Inr x \<Rightarrow> f x)"

text \<open>A loop or comprehension whose body may raise: the first error ends it.\<close>

fun rmap :: "('a \<Rightarrow> error + 'b) \<Rightarrow> 'a list \<Rightarrow> error + 'b list" where
  "rmap f [] = Inr []"
| "rmap f (x # xs) =
     (case f x of
        Inl e \<Rightarrow> Inl e
      | Inr y \<Rightarrow> (case rmap f xs of Inl e \<Rightarrow> Inl e | Inr ys \<Rightarrow> Inr (y # ys)))"

subsection \<open>Strings, paths, slices and dictionaries\<close>

text \<open>
  A \<open>char\<close> stands for a code point below 256. \<open>is_space\<close> is Python 3's
  \<^verbatim>\<open>str.isspace\<close> on these: 9 to 13, 28 to 32, 133 and 160.
\<close>

definition TAB :: char where
  "TAB = CHR 0x09"

definition is_space :: "char \<Rightarrow> bool" where
  "is_space c =
     (let n = (of_char c :: nat)
      in (9 \<le> n \<and> n \<le> 13) \<or> (28 \<le> n \<and> n \<le> 32) \<or> n = 133 \<or> n = 160)"

definition strip :: "string \<Rightarrow> string" where
  "strip s = rev (dropWhile is_space (rev (dropWhile is_space s)))"

text \<open>\<^verbatim>\<open>s.split(sep)\<close> for a one-character separator: never empty.\<close>

fun split_on :: "char \<Rightarrow> string \<Rightarrow> string list" where
  "split_on sep [] = [[]]"
| "split_on sep (c # cs) =
     (if c = sep then [] # split_on sep cs
      else (case split_on sep cs of
              [] \<Rightarrow> [[c]]
            | w # ws \<Rightarrow> (c # w) # ws))"

text \<open>\<^verbatim>\<open>os.path.join\<close> of \<^verbatim>\<open>posixpath\<close>.\<close>

definition join2 :: "string \<Rightarrow> string \<Rightarrow> string" where
  "join2 p b =
     (if take 1 b = ''/'' then b
      else if p = [] \<or> last p = CHR ''/'' then p @ b
      else p @ ''/'' @ b)"

definition path_join :: "string \<Rightarrow> string list \<Rightarrow> string" where
  "path_join a ps = foldl join2 a ps"

text \<open>The slice \<^verbatim>\<open>xs[:n]\<close>: a negative \<open>n\<close> counts from the end.\<close>

definition py_take :: "int \<Rightarrow> 'a list \<Rightarrow> 'a list" where
  "py_take n xs =
     (if n < 0 then take (nat (int (length xs) + n)) xs else take (nat n) xs)"

text \<open>
  A \<^verbatim>\<open>dict\<close> is an association list in insertion order; \<open>AList.update\<close> overwrites the
  value of a key that is present, in place, and appends a new key, as Python does.
\<close>

definition dict_get :: "(string \<times> 'v) list \<Rightarrow> string \<Rightarrow> error + 'v" where
  "dict_get d k = (case map_of d k of None \<Rightarrow> Inl (KeyError k) | Some v \<Rightarrow> Inr v)"

definition dict_of :: "('k \<times> 'v) list \<Rightarrow> ('k \<times> 'v) list" where
  "dict_of kvs = foldl (\<lambda>d (k, v). AList.update k v d) [] kvs"

subsection \<open>The file system\<close>

text \<open>
  \<^verbatim>\<open>scipy.misc.imread\<close> returns a 2-D array (height, width) for a single-channel image
  and a 3-D array (height, width, channels) otherwise; the element at a flat row-major
  index is given by a function.
\<close>

datatype image =
    Gray nat nat "nat \<Rightarrow> nat"
  | Color nat nat nat "nat \<Rightarrow> nat"

record filesystem =
  text_files :: "string \<rightharpoonup> string list"
  image_files :: "string \<rightharpoonup> image option"
  directories :: "string \<rightharpoonup> string list"

definition open_lines :: "filesystem \<Rightarrow> string \<Rightarrow> error + string list" where
  "open_lines fs p =
     (case text_files fs p of None \<Rightarrow> Inl (FileNotFound p) | Some ls \<Rightarrow> Inr ls)"

definition imread :: "filesystem \<Rightarrow> string \<Rightarrow> error + image" where
  "imread fs p =
     (case image_files fs p of
        None \<Rightarrow> Inl (FileNotFound p)
      | Some None \<Rightarrow> Inl (DecodeError p)
      | Some (Some img) \<Rightarrow> Inr img)"

definition listdir :: "filesystem \<Rightarrow> string \<Rightarrow> error + string list" where
  "listdir fs p =
     (case directories fs p of None \<Rightarrow> Inl (FileNotFound p) | Some ns \<Rightarrow> Inr ns)"

subsection \<open>Arrays\<close>

text \<open>
  The element type \<^verbatim>\<open>dtype\<close> is a parameter of the loader. The model takes what numpy
  does with it as three operations and a flag: the cast of a decoded pixel value, the mean
  of the values along the first axis, the subtraction, and whether the mean can be cast
  back to the element type by the in-place \<^verbatim>\<open>-=\<close> (it can for the floating types, and
  cannot for the integer types, where \<^verbatim>\<open>-=\<close> raises).
\<close>

record 'a dtype =
  cast :: "nat \<Rightarrow> 'a"
  mean :: "'a list \<Rightarrow> 'a"
  minus :: "'a \<Rightarrow> 'a \<Rightarrow> 'a"
  same_kind :: bool

definition slot_size :: nat where
  "slot_size = 64 * 64 * 3"

definition ndim :: "image \<Rightarrow> nat" where
  "ndim img = (case img of Gray h w d \<Rightarrow> 2 | Color h w c d \<Rightarrow> 3)"

text \<open>\<^verbatim>\<open>img.shape = (64, 64, 1)\<close>: the number of elements must stay the same.\<close>

definition set_shape_64_64_1 :: "image \<Rightarrow> error + image" where
  "set_shape_64_64_1 img =
     (case img of
        Gray h w d \<Rightarrow> if h * w = 64 * 64 * 1 then Inr (Color 64 64 1 d) else Inl ValueError
      | Color h w c d \<Rightarrow>
          if h * w * c = 64 * 64 * 1 then Inr (Color 64 64 1 d) else Inl ValueError)"

text \<open>
  The element of a source of shape \<open>(h, w, c)\<close> that broadcasting puts at the flat index
  \<open>i\<close> of a (64, 64, 3) slot: an axis of length 1 is repeated.
\<close>

definition src_index :: "nat \<Rightarrow> nat \<Rightarrow> nat \<Rightarrow> nat \<Rightarrow> nat" where
  "src_index h w c i =
     (let r = i div (64 * 3); col = (i div 3) mod 64; k = i mod 3;
          r' = (if h = 1 then 0 else r);
          col' = (if w = 1 then 0 else col);
          k' = (if c = 1 then 0 else k)
      in (r' * w + col') * c + k')"

text \<open>
  \<^verbatim>\<open>X_block[j] = img\<close>: the image is broadcast to the slot's shape (64, 64, 3) and cast to
  the element type; a shape that does not broadcast raises. A 2-D source of shape
  \<open>(h, w)\<close> is aligned with the last two axes. The slot is a flat row-major list.
\<close>

definition assign_slot :: "'a dtype \<Rightarrow> image \<Rightarrow> error + 'a list" where
  "assign_slot dt img =
     (case img of
        Gray h w d \<Rightarrow>
          if (h = 64 \<or> h = 1) \<and> (w = 3 \<or> w = 1)
          then Inr (map (\<lambda>i. cast dt (d (src_index 1 h w i))) [0..<slot_size])
          else Inl ValueError
      | Color h w c d \<Rightarrow>
          if (h = 64 \<or> h = 1) \<and> (w = 64 \<or> w = 1) \<and> (c = 3 \<or> c = 1)
          then Inr (map (\<lambda>i. cast dt (d (src_index h w c i))) [0..<slot_size])
          else Inl ValueError)"

text \<open>\<^verbatim>\<open>X.mean(axis=0)\<close> of a block of slots, and \<^verbatim>\<open>X -= mean_image[None]\<close>.\<close>

definition mean_axis0 :: "'a dtype \<Rightarrow> 'a list list \<Rightarrow> 'a list" where
  "mean_axis0 dt X = map (\<lambda>i. mean dt (map (\<lambda>img. img ! i) X)) [0..<slot_size]"

definition subtract_block :: "'a dtype \<Rightarrow> 'a list list \<Rightarrow> 'a list \<Rightarrow> 'a list list" where
  "subtract_block dt X m = map (\<lambda>img. map (\<lambda>(x, y). minus dt x y) (zip img m)) X"

subsection \<open>The loader\<close>

record 'a dataset =
  class_names :: "string list list"
  X_train :: "'a list list option"
  y_train :: "nat list option"
  X_val :: "'a list list option"
  y_val :: "nat list option"
  X_test :: "'a list list option"
  mean_image :: "'a list option"
  label_to_wnid :: "(nat \<times> string) list"
  test_image_names :: "string list option"

text \<open>Lines 50 to 55: the class identifiers and the two dictionaries.\<close>

definition read_wnids :: "filesystem \<Rightarrow> string \<Rightarrow> error + string list" where
  "read_wnids fs path =
     rbind (open_lines fs (path_join path [''wnids.txt''])) (\<lambda>f. Inr (map strip f))"

definition make_wnid_to_label :: "string list \<Rightarrow> (string \<times> nat) list" where
  "make_wnid_to_label wnids = dict_of (map (\<lambda>(i, wnid). (wnid, i)) (enumerate 0 wnids))"

definition make_label_to_wnid :: "(string \<times> nat) list \<Rightarrow> (nat \<times> string) list" where
  "make_label_to_wnid wnid_to_label = dict_of (map (\<lambda>(k, v). (v, k)) wnid_to_label)"

text \<open>Lines 58 to 62: \<^verbatim>\<open>dict\<close> of a line split at tabs needs exactly two fields.\<close>

definition read_words :: "filesystem \<Rightarrow> string \<Rightarrow> error + (string \<times> string list) list" where
  "read_words fs path =
     rbind (open_lines fs (path_join path [''words.txt''])) (\<lambda>f.
     rbind (rmap (\<lambda>line. case split_on TAB line of
                             [k, v] \<Rightarrow> Inr (k, v)
                           | _ \<Rightarrow> Inl ValueError) f) (\<lambda>kvs.
     Inr (map (\<lambda>(wnid, words). (wnid, map strip (split_on CHR '','' words)))
            (dict_of kvs))))"

text \<open>Lines 82 to 86, 109 to 113 and 125 to 129: one image into its slot.\<close>

definition load_image :: "filesystem \<Rightarrow> 'a dtype \<Rightarrow> string \<Rightarrow> error + 'a list" where
  "load_image fs dt img_file =
     rbind (imread fs img_file) (\<lambda>img.
     rbind (if ndim img = 2 then set_shape_64_64_1 img else Inr img) (\<lambda>img.
     assign_slot dt img))"

text \<open>Lines 73 to 88: the block of one training class.\<close>

definition load_train_class ::
  "filesystem \<Rightarrow> string \<Rightarrow> 'a dtype \<Rightarrow> (string \<times> nat) list \<Rightarrow> string
     \<Rightarrow> error + ('a list list \<times> nat list)" where
  "load_train_class fs path dt wnid_to_label wnid =
     rbind (open_lines fs (path_join path [''train'', wnid, wnid @ ''_boxes.txt''])) (\<lambda>f.
     let filenames = map (\<lambda>x. hd (split_on TAB x)) f;
         num_images = length filenames
     in
     rbind (dict_get wnid_to_label wnid) (\<lambda>label.
     rbind (rmap (\<lambda>img_file.
              load_image fs dt (path_join path [''train'', wnid, ''images'', img_file]))
            filenames) (\<lambda>X_train_block.
     Inr (X_train_block, replicate num_images label))))"

text \<open>Lines 69 to 92: \<^verbatim>\<open>np.concatenate\<close> of an empty list of blocks raises.\<close>

definition load_train ::
  "filesystem \<Rightarrow> string \<Rightarrow> 'a dtype \<Rightarrow> (string \<times> nat) list \<Rightarrow> string list
     \<Rightarrow> error + ('a list list \<times> nat list)" where
  "load_train fs path dt wnid_to_label train_wnids =
     rbind (rmap (load_train_class fs path dt wnid_to_label) train_wnids) (\<lambda>blocks.
     if blocks = [] then Inl ValueError
     else Inr (concat (map fst blocks), concat (map snd blocks)))"

text \<open>Lines 98 to 113: unpacking \<^verbatim>\<open>line.split('\t')[:2]\<close> needs two fields.\<close>

definition load_val ::
  "filesystem \<Rightarrow> string \<Rightarrow> 'a dtype \<Rightarrow> (string \<times> nat) list
     \<Rightarrow> error + ('a list list \<times> nat list)" where
  "load_val fs path dt wnid_to_label =
     rbind (open_lines fs (path_join path [''val'', ''val_annotations.txt''])) (\<lambda>f.
     rbind (rmap (\<lambda>line. case take 2 (split_on TAB line) of
                             [img_file, wnid] \<Rightarrow> Inr (img_file, wnid)
                           | _ \<Rightarrow> Inl ValueError) f) (\<lambda>pairs.
     let img_files = map fst pairs; val_wnids = map snd pairs in
     rbind (rmap (dict_get wnid_to_label) val_wnids) (\<lambda>y_val.
     rbind (rmap (\<lambda>img_file.
              load_image fs dt (path_join path [''val'', ''images'', img_file]))
            img_files) (\<lambda>X_val.
     Inr (X_val, y_val)))))"

text \<open>Lines 121 to 130.\<close>

definition load_test ::
  "filesystem \<Rightarrow> string \<Rightarrow> 'a dtype \<Rightarrow> error + ('a list list \<times> string list)" where
  "load_test fs path dt =
     rbind (listdir fs (path_join path [''test'', ''images''])) (\<lambda>img_files.
     rbind (rmap (\<lambda>img_file.
              let img_file = path_join path [''test'', ''images'', img_file] in
              rbind (load_image fs dt img_file) (\<lambda>slot. Inr (slot, img_file)))
            img_files) (\<lambda>rs.
     Inr (map fst rs, map snd rs)))"

text \<open>Lines 50 to 130: the local variables before the mean is looked at.\<close>

definition load_data ::
  "filesystem \<Rightarrow> string \<Rightarrow> bool \<Rightarrow> 'a dtype \<Rightarrow> bool \<Rightarrow> int \<Rightarrow> error + 'a dataset" where
  "load_data fs path is_training dt debug debug_nclass =
     rbind (read_wnids fs path) (\<lambda>wnids.
     let wnid_to_label = make_wnid_to_label wnids;
         l2w = make_label_to_wnid wnid_to_label
     in
     rbind (read_words fs path) (\<lambda>wnid_to_words.
     rbind (rmap (dict_get wnid_to_words) wnids) (\<lambda>names.
     let train_wnids = (if debug then py_take debug_nclass wnids else wnids) in
     rbind (load_train fs path dt wnid_to_label train_wnids) (\<lambda>(Xtr, ytr).
     rbind (if is_training
            then rbind (load_val fs path dt wnid_to_label)
                   (\<lambda>(Xv, yv). Inr (Some Xv, Some yv))
            else Inr (None, None)) (\<lambda>(Xv, yv).
     rbind (if \<not> is_training
            then rbind (load_test fs path dt)
                   (\<lambda>(Xt, ns). Inr (Some Xt, Some ns))
            else Inr (None, None)) (\<lambda>(Xt, ns).
     Inr \<lparr> class_names = names, X_train = Some Xtr, y_train = Some ytr,
           X_val = Xv, y_val = yv, X_test = Xt, mean_image = None,
           label_to_wnid = l2w, test_image_names = ns \<rparr>))))))"

text \<open>
  Lines 133 to 139. An operand that is \<^verbatim>\<open>None\<close> would raise; the mean is computed before
  the first subtraction.
\<close>

definition subtract_mean_step :: "'a dtype \<Rightarrow> bool \<Rightarrow> 'a dataset \<Rightarrow> error + 'a dataset" where
  "subtract_mean_step dt is_training D =
     (case X_train D of
        None \<Rightarrow> Inl TypeError
      | Some Xtr \<Rightarrow>
          let m = mean_axis0 dt Xtr in
          if \<not> same_kind dt then Inl TypeError
          else if is_training then
            (case X_val D of
               None \<Rightarrow> Inl TypeError
             | Some Xv \<Rightarrow>
                 Inr (D\<lparr> X_train := Some (subtract_block dt Xtr m),
                         X_val := Some (subtract_block dt Xv m),
                         mean_image := Some m \<rparr>))
          else
            (case X_test D of
               None \<Rightarrow> Inl TypeError
             | Some Xt \<Rightarrow>
                 Inr (D\<lparr> X_test := Some (subtract_block dt Xt m),
                         mean_image := Some m \<rparr>)))"

definition load_tiny_imagenet ::
  "filesystem \<Rightarrow> string \<Rightarrow> bool \<Rightarrow> 'a dtype \<Rightarrow> bool \<Rightarrow> bool \<Rightarrow> int \<Rightarrow> error + 'a dataset" where
  "load_tiny_imagenet fs path is_training dt subtract_mean debug debug_nclass =
     rbind (load_data fs path is_training dt debug debug_nclass) (\<lambda>D.
     rbind (if subtract_mean then subtract_mean_step dt is_training D else Inr D) (\<lambda>D.
     Inr (if \<not> is_training then D\<lparr> X_train := None, y_train := None \<rparr> else D)))"

subsection \<open>Fixtures\<close>

text \<open>
  An element type with exact arithmetic, and a directory \<^verbatim>\<open>d\<close> with two classes: \<^verbatim>\<open>a\<close> has
  one colour training image (every element 7), \<^verbatim>\<open>b\<close> one grayscale training image (every
  element 3); one colour validation image of class \<^verbatim>\<open>b\<close> (every element 9) and one
  grayscale test image (every element 1).
\<close>

definition dt_real :: "real dtype" where
  "dt_real = \<lparr> cast = real, mean = (\<lambda>xs. sum_list xs / real (length xs)),
                minus = (\<lambda>x y. x - y), same_kind = True \<rparr>"

definition fx_text :: "string \<rightharpoonup> string list" where
  "fx_text = [
     ''d/wnids.txt'' \<mapsto> [''a\<newline>'', ''b\<newline>''],
     ''d/words.txt'' \<mapsto>
        [''a'' @ [TAB] @ ''cat, kitty\<newline>'', ''b'' @ [TAB] @ ''dog\<newline>''],
     ''d/train/a/a_boxes.txt'' \<mapsto> [''a_0.JPEG'' @ [TAB] @ ''0'' @ [TAB] @ ''63\<newline>''],
     ''d/train/b/b_boxes.txt'' \<mapsto> [''b_0.JPEG'' @ [TAB] @ ''0'' @ [TAB] @ ''63\<newline>''],
     ''d/val/val_annotations.txt'' \<mapsto>
        [''val_0.JPEG'' @ [TAB] @ ''b'' @ [TAB] @ ''0\<newline>'']]"

definition fx_images :: "string \<rightharpoonup> image option" where
  "fx_images = [
     ''d/train/a/images/a_0.JPEG'' \<mapsto> Some (Color 64 64 3 (\<lambda>i. 7)),
     ''d/train/b/images/b_0.JPEG'' \<mapsto> Some (Gray 64 64 (\<lambda>i. 3)),
     ''d/val/images/val_0.JPEG'' \<mapsto> Some (Color 64 64 3 (\<lambda>i. 9)),
     ''d/test/images/test_0.JPEG'' \<mapsto> Some (Gray 64 64 (\<lambda>i. 1))]"

definition fx_dirs :: "string \<rightharpoonup> string list" where
  "fx_dirs = [''d/test/images'' \<mapsto> [''test_0.JPEG'']]"

definition fx :: filesystem where
  "fx = \<lparr> text_files = fx_text, image_files = fx_images, directories = fx_dirs \<rparr>"

definition fx_test_result :: "real dataset" where
  "fx_test_result =
     \<lparr> class_names = [[''cat'', ''kitty''], [''dog'']],
       X_train = None, y_train = None, X_val = None, y_val = None,
       X_test = Some [replicate slot_size (- 4)],
       mean_image = Some (replicate slot_size 5),
       label_to_wnid = [(0, ''a''), (Suc 0, ''b'')],
       test_image_names = Some [''d/test/images/test_0.JPEG''] \<rparr>"

text \<open>
  The same directory with the line \<^verbatim>\<open>a\<close> twice in \<^verbatim>\<open>wnids.txt\<close>, one class in
  \<^verbatim>\<open>words.txt\<close> and an empty validation manifest.
\<close>

definition fx_dup_text :: "string \<rightharpoonup> string list" where
  "fx_dup_text = [
     ''d/wnids.txt'' \<mapsto> [''a\<newline>'', ''a\<newline>''],
     ''d/words.txt'' \<mapsto> [''a'' @ [TAB] @ ''cat\<newline>''],
     ''d/train/a/a_boxes.txt'' \<mapsto> [''a_0.JPEG'' @ [TAB] @ ''0'' @ [TAB] @ ''63\<newline>''],
     ''d/val/val_annotations.txt'' \<mapsto> []]"

definition fx_dup :: filesystem where
  "fx_dup = \<lparr> text_files = fx_dup_text, image_files = fx_images, directories = fx_dirs \<rparr>"

definition fx_dup_result :: "real dataset" where
  "fx_dup_result =
     \<lparr> class_names = [[''cat''], [''cat'']],
       X_train = Some [replicate slot_size 7, replicate slot_size 7],
       y_train = Some [Suc 0, Suc 0], X_val = Some [], y_val = Some [],
       X_test = None, mean_image = None,
       label_to_wnid = [(Suc 0, ''a'')],
       test_image_names = None \<rparr>"

definition fx_train_result :: "real dataset" where
  "fx_train_result =
     \<lparr> class_names = [[''cat'', ''kitty''], [''dog'']],
       X_train = Some [replicate slot_size 2, replicate slot_size (- 2)],
       y_train = Some [0, Suc 0],
       X_val = Some [replicate slot_size 4], y_val = Some [Suc 0],
       X_test = None,
       mean_image = Some (replicate slot_size 5),
       label_to_wnid = [(0, ''a''), (Suc 0, ''b'')],
       test_image_names = None \<rparr>"

subsection \<open>Paths of the training files\<close>

abbreviation boxes_file :: "string \<Rightarrow> string \<Rightarrow> string" where
  "boxes_file path wnid \<equiv> path_join path [''train'', wnid, wnid @ ''_boxes.txt'']"

abbreviation train_image :: "string \<Rightarrow> string \<Rightarrow> string \<Rightarrow> string" where
  "train_image path wnid line \<equiv>
     path_join path [''train'', wnid, ''images'', hd (split_on TAB line)]"

subsection \<open>More fixtures\<close>

text \<open>The result of the training load of \<^verbatim>\<open>d\<close> with \<open>debug\<close> and one class.\<close>

definition fx_debug_result :: "real dataset" where
  "fx_debug_result =
     \<lparr> class_names = [[''cat'', ''kitty''], [''dog'']],
       X_train = Some [replicate slot_size 0],
       y_train = Some [0],
       X_val = Some [replicate slot_size 2], y_val = Some [Suc 0],
       X_test = None,
       mean_image = Some (replicate slot_size 7),
       label_to_wnid = [(0, ''a''), (Suc 0, ''b'')],
       test_image_names = None \<rparr>"

text \<open>The directory \<^verbatim>\<open>d\<close> with a validation line that names the unknown class \<^verbatim>\<open>zzz\<close>.\<close>

definition bad_line :: string where
  "bad_line = ''val_0.JPEG'' @ [TAB] @ ''zzz'' @ [TAB] @ ''0\<newline>''"

definition fx_bad :: filesystem where
  "fx_bad = fx\<lparr> text_files := fx_text(''d/val/val_annotations.txt'' \<mapsto> [bad_line]) \<rparr>"

subsection \<open>A block less the mean image, element by element\<close>


subsection \<open>Grayscale slots and the files of a load\<close>



abbreviation train_wnids :: "bool \<Rightarrow> int \<Rightarrow> string list \<Rightarrow> string list" where
  "train_wnids dbg n ls \<equiv> (if dbg then py_take n (map strip ls) else map strip ls)"

abbreviation val_image :: "string \<Rightarrow> string \<Rightarrow> string" where
  "val_image path line \<equiv> path_join path [''val'', ''images'', hd (split_on TAB line)]"


subsection \<open>Two file systems that differ from the fixture in one place\<close>


definition fx_no_boxes :: filesystem where
  "fx_no_boxes = fx\<lparr> text_files := (text_files fx)(boxes_file ''d'' ''a'' := None) \<rparr>"

abbreviation val_manifest :: "string \<Rightarrow> string" where
  "val_manifest path \<equiv> path_join path [''val'', ''val_annotations.txt'']"

section \<open>Properties\<close>

subsection \<open>The error monad\<close>

lemma rbind_Inr: "rbind m f = Inr y \<longleftrightarrow> (\<exists>x. m = Inr x \<and> f x = Inr y)"
  by (cases m) (simp_all add: rbind_def)

lemma rbind_Inl: "rbind m f = Inl e \<longleftrightarrow> (m = Inl e \<or> (\<exists>x. m = Inr x \<and> f x = Inl e))"
  by (cases m) (simp_all add: rbind_def)

lemma rmap_Inr: "rmap f xs = Inr ys \<longleftrightarrow> list_all2 (\<lambda>x y. f x = Inr y) xs ys"
proof (induction xs arbitrary: ys)
  case Nil
  then show ?case by auto
next
  case (Cons x xs)
  show ?case
    by (cases "f x"; cases "rmap f xs")
       (auto simp: list_all2_Cons1 Cons.IH [symmetric])
qed

lemma rmap_Inl: "rmap f xs = Inl e \<Longrightarrow> \<exists>x\<in>set xs. f x = Inl e"
  by (induction xs) (auto split: sum.splits)

lemma rmap_fails: "x \<in> set xs \<Longrightarrow> f x = Inl e \<Longrightarrow> \<exists>e'. rmap f xs = Inl e'"
  by (induction xs) (auto split: sum.splits)

subsection \<open>Strings and slots\<close>

lemma split_on_nonempty: "split_on sep s \<noteq> []"
  by (induction s) (auto split: list.splits)

lemma assign_slot_length: "assign_slot dt img = Inr s \<Longrightarrow> length s = slot_size"
  by (cases img) (auto simp: assign_slot_def split: if_splits)

lemma load_image_length: "load_image fs dt p = Inr s \<Longrightarrow> length s = slot_size"
  by (auto simp: load_image_def rbind_Inr dest: assign_slot_length)

lemma const_slot: "map (\<lambda>i. c) [0..<slot_size] = replicate slot_size c"
  by (simp add: map_replicate_const)

lemma map_upt_const: "(\<And>i. i < n \<Longrightarrow> f i = c) \<Longrightarrow> map f [0..<n] = replicate n c"
  by (rule nth_equalityI) auto

subsection \<open>The stages of a load that returns\<close>

lemma load_data_Inr:
  assumes "load_data fs path it dt dbg n = Inr D"
  obtains wnids w2w names Xtr ytr Xv yv Xt ns where
    "read_wnids fs path = Inr wnids"
    "read_words fs path = Inr w2w"
    "rmap (dict_get w2w) wnids = Inr names"
    "load_train fs path dt (make_wnid_to_label wnids)
       (if dbg then py_take n wnids else wnids) = Inr (Xtr, ytr)"
    "if it then (\<exists>a b. load_val fs path dt (make_wnid_to_label wnids) = Inr (a, b)
                    \<and> Xv = Some a \<and> yv = Some b)
     else Xv = None \<and> yv = None"
    "if it then Xt = None \<and> ns = None
     else (\<exists>a b. load_test fs path dt = Inr (a, b) \<and> Xt = Some a \<and> ns = Some b)"
    "D = \<lparr> class_names = names, X_train = Some Xtr, y_train = Some ytr,
           X_val = Xv, y_val = yv, X_test = Xt, mean_image = None,
           label_to_wnid = make_label_to_wnid (make_wnid_to_label wnids),
           test_image_names = ns \<rparr>"
  using assms unfolding load_data_def
  by (auto simp: rbind_Inr Let_def split: if_splits prod.splits)

lemma load_Inr:
  assumes "load_tiny_imagenet fs path it dt sm dbg n = Inr r"
  obtains D D' where
    "load_data fs path it dt dbg n = Inr D"
    "if sm then subtract_mean_step dt it D = Inr D' else D' = D"
    "r = (if \<not> it then D'\<lparr> X_train := None, y_train := None \<rparr> else D')"
proof -
  from assms obtain D D' where
    a: "load_data fs path it dt dbg n = Inr D" and
    b: "(if sm then subtract_mean_step dt it D else Inr D) = Inr D'" and
    c: "r = (if \<not> it then D'\<lparr> X_train := None, y_train := None \<rparr> else D')"
    unfolding load_tiny_imagenet_def by (auto simp: rbind_Inr)
  show thesis
    using that [of D D'] a b c by (cases sm) auto
qed

lemma load_test_Inr:
  assumes "load_test fs path dt = Inr (Xt, ns)"
  shows "\<exists>ls. listdir fs (path_join path [''test'', ''images'']) = Inr ls
            \<and> ns = map (\<lambda>f. path_join path [''test'', ''images'', f]) ls
            \<and> length Xt = length ls
            \<and> (\<forall>i<length ls. load_image fs dt (ns ! i) = Inr (Xt ! i))"
proof -
  from assms obtain ls rs where
    ls: "listdir fs (path_join path [''test'', ''images'']) = Inr ls" and
    rs: "list_all2
           (\<lambda>f r. rbind (load_image fs dt (path_join path [''test'', ''images'', f]))
                     (\<lambda>slot. Inr (slot, path_join path [''test'', ''images'', f])) = Inr r)
           ls rs" and
    eq: "Xt = map fst rs" "ns = map snd rs"
    unfolding load_test_def by (auto simp: rbind_Inr rmap_Inr Let_def)
  have len: "length rs = length ls"
    using rs by (simp add: list_all2_lengthD)
  have nth: "load_image fs dt (path_join path [''test'', ''images'', ls ! i]) = Inr (fst (rs ! i))
             \<and> snd (rs ! i) = path_join path [''test'', ''images'', ls ! i]"
    if "i < length ls" for i
    using list_all2_nthD [OF rs that] by (cases "rs ! i") (auto simp: rbind_Inr)
  have "ns = map (\<lambda>f. path_join path [''test'', ''images'', f]) ls"
    unfolding eq using len nth by (auto intro: nth_equalityI)
  then show ?thesis
    using ls len nth eq by auto
qed

subsection \<open>The fixture, evaluated\<close>

lemma dt_real_sel:
  "cast dt_real = real" "mean dt_real = (\<lambda>xs. sum_list xs / real (length xs))"
  "minus dt_real = (\<lambda>x y. x - y)" "same_kind dt_real = True"
  by (simp_all add: dt_real_def)

lemmas fx_defs = fx_def fx_text_def fx_images_def fx_dirs_def dt_real_sel

lemmas io_defs = open_lines_def imread_def listdir_def path_join_def join2_def rbind_def
  strip_def is_space_def TAB_def dict_of_def dict_get_def

lemmas img_defs = load_image_def ndim_def assign_slot_def set_shape_64_64_1_def const_slot

lemma fx_wnids: "read_wnids fx ''d'' = Inr [''a'', ''b'']"
  by (simp add: read_wnids_def io_defs fx_defs)

lemma fx_words: "read_words fx ''d'' = Inr [(''a'', [''cat'', ''kitty'']), (''b'', [''dog''])]"
  by (simp add: read_words_def io_defs fx_defs)

lemma fx_w2l: "make_wnid_to_label [''a'', ''b''] = [(''a'', 0), (''b'', Suc 0)]"
  by (simp add: make_wnid_to_label_def enumerate_eq_zip dict_of_def upt_rec)

lemma fx_l2w: "make_label_to_wnid [(''a'', 0), (''b'', Suc 0)] = [(0, ''a''), (Suc 0, ''b'')]"
  by (simp add: make_label_to_wnid_def dict_of_def)

lemma fx_train_a:
  "load_train_class fx ''d'' dt_real [(''a'', 0), (''b'', Suc 0)] ''a''
     = Inr ([replicate slot_size 7], [0])"
  by (simp add: load_train_class_def io_defs img_defs fx_defs)

lemma fx_train_b:
  "load_train_class fx ''d'' dt_real [(''a'', 0), (''b'', Suc 0)] ''b''
     = Inr ([replicate slot_size 3], [Suc 0])"
  by (simp add: load_train_class_def io_defs img_defs fx_defs)

lemma fx_train:
  "load_train fx ''d'' dt_real [(''a'', 0), (''b'', Suc 0)] [''a'', ''b'']
     = Inr ([replicate slot_size 7, replicate slot_size 3], [0, Suc 0])"
  by (simp add: load_train_def fx_train_a fx_train_b rbind_def)

lemma fx_val:
  "load_val fx ''d'' dt_real [(''a'', 0), (''b'', Suc 0)]
     = Inr ([replicate slot_size 9], [Suc 0])"
  by (simp add: load_val_def io_defs img_defs fx_defs)

lemma fx_test:
  "load_test fx ''d'' dt_real
     = Inr ([replicate slot_size 1], [''d/test/images/test_0.JPEG''])"
  by (simp add: load_test_def io_defs img_defs fx_defs)

lemma fx_mean:
  "mean_axis0 dt_real [replicate slot_size 7, replicate slot_size 3] = replicate slot_size 5"
  unfolding mean_axis0_def by (rule map_upt_const) (simp add: dt_real_sel)

lemma fx_data_test:
  "load_data fx ''d'' False dt_real False 3 =
     Inr \<lparr> class_names = [[''cat'', ''kitty''], [''dog'']],
           X_train = Some [replicate slot_size 7, replicate slot_size 3],
           y_train = Some [0, Suc 0], X_val = None, y_val = None,
           X_test = Some [replicate slot_size 1], mean_image = None,
           label_to_wnid = [(0, ''a''), (Suc 0, ''b'')],
           test_image_names = Some [''d/test/images/test_0.JPEG''] \<rparr>"
  by (simp add: load_data_def fx_wnids fx_words fx_w2l fx_l2w fx_train fx_test rbind_def
        dict_get_def)

lemma fx_load_test:
  "load_tiny_imagenet fx ''d'' False dt_real True False 3 = Inr fx_test_result"
  by (simp add: load_tiny_imagenet_def fx_data_test subtract_mean_step_def fx_mean rbind_def
        subtract_block_def dt_real_sel fx_test_result_def)

subsection \<open>The two dictionaries\<close>

lemma map_of_foldl_update:
  "map_of (foldl (\<lambda>d (k, v). AList.update k v d) d kvs) = map_of (rev kvs @ d)"
proof (induction kvs arbitrary: d)
  case Nil
  show ?case by simp
next
  case (Cons kv kvs)
  obtain k v where kv: "kv = (k, v)" by (cases kv)
  show ?case
    by (simp add: kv Cons.IH update_conv')
qed

lemma map_of_dict_of: "map_of (dict_of kvs) = map_of (rev kvs)"
  by (simp add: dict_of_def map_of_foldl_update)

lemma distinct_foldl_update:
  "distinct (map fst d) \<Longrightarrow> distinct (map fst (foldl (\<lambda>d (k, v). AList.update k v d) d kvs))"
  by (induction kvs arbitrary: d) (auto simp: distinct_update)

lemma distinct_dict_of: "distinct (map fst (dict_of kvs))"
  by (simp add: dict_of_def distinct_foldl_update)

lemma wnid_to_label_Some:
  "map_of (make_wnid_to_label wnids) w = Some i \<longleftrightarrow>
     i < length wnids \<and> wnids ! i = w \<and> w \<notin> set (drop (Suc i) wnids)"
proof (induction wnids rule: rev_induct)
  case Nil
  show ?case by (simp add: make_wnid_to_label_def map_of_dict_of)
next
  case (snoc x xs)
  have step: "map_of (make_wnid_to_label (xs @ [x])) w
                = (if w = x then Some (length xs) else map_of (make_wnid_to_label xs) w)"
    by (simp add: make_wnid_to_label_def map_of_dict_of enumerate_append_eq)
  show ?case
  proof (cases "w = x")
    case True
    have "i < length xs \<Longrightarrow> x \<in> set (drop (Suc i) (xs @ [x]))" by simp
    then show ?thesis
      unfolding step using True by (auto simp: nth_append less_Suc_eq)
  next
    case False
    then show ?thesis
      unfolding step using snoc.IH by (auto simp: nth_append less_Suc_eq)
  qed
qed

lemma wnid_to_label_mem:
  "(w, i) \<in> set (make_wnid_to_label wnids) \<longleftrightarrow> map_of (make_wnid_to_label wnids) w = Some i"
  using distinct_dict_of [of "map (\<lambda>(i, wnid). (wnid, i)) (enumerate 0 wnids)"]
  by (simp add: make_wnid_to_label_def)

lemma wnid_to_label_distinct_values: "distinct (map snd (make_wnid_to_label wnids))"
proof -
  let ?al = "make_wnid_to_label wnids"
  have keys: "distinct (map fst ?al)"
    by (simp add: make_wnid_to_label_def distinct_dict_of)
  then have "distinct ?al"
    by (simp add: distinct_map)
  moreover have "inj_on snd (set ?al)"
  proof (rule inj_onI)
    fix p q assume p: "p \<in> set ?al" and q: "q \<in> set ?al" and eq: "snd p = snd q"
    from p have "wnids ! snd p = fst p"
      using wnid_to_label_mem [of "fst p" "snd p" wnids] by (simp add: wnid_to_label_Some)
    moreover from q have "wnids ! snd q = fst q"
      using wnid_to_label_mem [of "fst q" "snd q" wnids] by (simp add: wnid_to_label_Some)
    ultimately show "p = q"
      using eq by (simp add: prod_eq_iff)
  qed
  ultimately show ?thesis
    by (simp add: distinct_map)
qed

lemma label_to_wnid_Some:
  "map_of (make_label_to_wnid (make_wnid_to_label wnids)) i = Some w \<longleftrightarrow>
     map_of (make_wnid_to_label wnids) w = Some i"
proof -
  let ?al = "make_wnid_to_label wnids"
  let ?sw = "map (\<lambda>(k, v). (v, k)) ?al"
  have "fst \<circ> (\<lambda>(k, v). (v, k)) = (snd :: string \<times> nat \<Rightarrow> nat)"
    by (auto simp: fun_eq_iff)
  then have d: "distinct (map fst (rev ?sw))"
    using wnid_to_label_distinct_values [of wnids] by (simp add: rev_map [symmetric])
  have "map_of (make_label_to_wnid ?al) i = Some w \<longleftrightarrow> (i, w) \<in> set (rev ?sw)"
    unfolding make_label_to_wnid_def map_of_dict_of using d by (rule map_of_eq_Some_iff)
  also have "\<dots> \<longleftrightarrow> (w, i) \<in> set ?al"
    by auto
  finally show ?thesis
    by (simp add: wnid_to_label_mem)
qed

subsection \<open>What a load that returns has read\<close>

lemma read_wnids_Inr:
  "read_wnids fs path = Inr wnids \<longleftrightarrow>
     (\<exists>ls. text_files fs (path_join path [''wnids.txt'']) = Some ls \<and> wnids = map strip ls)"
  by (auto simp: read_wnids_def open_lines_def rbind_Inr split: option.splits)

lemma load_tiny_imagenet_Inr [consumes 1, case_names Loaded]:
  assumes "load_tiny_imagenet fs path it dt sm dbg n = Inr r"
  obtains (Loaded) wnids w2w names Xtr ytr Xv yv Xt ns where
    "read_wnids fs path = Inr wnids"
    "read_words fs path = Inr w2w"
    "rmap (dict_get w2w) wnids = Inr names"
    "load_train fs path dt (make_wnid_to_label wnids)
       (if dbg then py_take n wnids else wnids) = Inr (Xtr, ytr)"
    "it \<longrightarrow> load_val fs path dt (make_wnid_to_label wnids) = Inr (Xv, yv)"
    "\<not> it \<longrightarrow> load_test fs path dt = Inr (Xt, ns)"
    "sm \<longrightarrow> same_kind dt"
    "r = \<lparr> class_names = names,
           X_train = (if it then Some (if sm then subtract_block dt Xtr (mean_axis0 dt Xtr)
                                       else Xtr) else None),
           y_train = (if it then Some ytr else None),
           X_val = (if it then Some (if sm then subtract_block dt Xv (mean_axis0 dt Xtr)
                                     else Xv) else None),
           y_val = (if it then Some yv else None),
           X_test = (if it then None
                     else Some (if sm then subtract_block dt Xt (mean_axis0 dt Xtr) else Xt)),
           mean_image = (if sm then Some (mean_axis0 dt Xtr) else None),
           label_to_wnid = make_label_to_wnid (make_wnid_to_label wnids),
           test_image_names = (if it then None else Some ns) \<rparr>"
proof -
  from assms obtain D D' where
    D: "load_data fs path it dt dbg n = Inr D" and
    D': "if sm then subtract_mean_step dt it D = Inr D' else D' = D" and
    r: "r = (if \<not> it then D'\<lparr> X_train := None, y_train := None \<rparr> else D')"
    by (rule load_Inr)
  from D obtain wnids w2w names Xtr ytr Xv yv Xt ns where
    s: "read_wnids fs path = Inr wnids"
       "read_words fs path = Inr w2w"
       "rmap (dict_get w2w) wnids = Inr names"
       "load_train fs path dt (make_wnid_to_label wnids)
          (if dbg then py_take n wnids else wnids) = Inr (Xtr, ytr)" and
    v: "if it then (\<exists>a b. load_val fs path dt (make_wnid_to_label wnids) = Inr (a, b)
                      \<and> Xv = Some a \<and> yv = Some b)
        else Xv = None \<and> yv = None" and
    t: "if it then Xt = None \<and> ns = None
        else (\<exists>a b. load_test fs path dt = Inr (a, b) \<and> Xt = Some a \<and> ns = Some b)" and
    Deq: "D = \<lparr> class_names = names, X_train = Some Xtr, y_train = Some ytr,
           X_val = Xv, y_val = yv, X_test = Xt, mean_image = None,
           label_to_wnid = make_label_to_wnid (make_wnid_to_label wnids),
           test_image_names = ns \<rparr>"
    by (rule load_data_Inr)
  show thesis
  proof (cases it)
    case True
    with v t obtain a b where
      ab: "load_val fs path dt (make_wnid_to_label wnids) = Inr (a, b)"
          "Xv = Some a" "yv = Some b" "Xt = None" "ns = None"
      by auto
    show ?thesis
      by (rule that [of wnids w2w names Xtr ytr a b undefined undefined])
         (use s ab True D' r Deq in
            \<open>auto simp: subtract_mean_step_def Let_def split: if_splits\<close>)
  next
    case False
    with v t obtain a b where
      ab: "load_test fs path dt = Inr (a, b)"
          "Xt = Some a" "ns = Some b" "Xv = None" "yv = None"
      by auto
    show ?thesis
      by (rule that [of wnids w2w names Xtr ytr undefined undefined a b])
         (use s ab False D' r Deq in
            \<open>auto simp: subtract_mean_step_def Let_def split: if_splits\<close>)
  qed
qed

lemma open_lines_Inr: "open_lines fs p = Inr ls \<longleftrightarrow> text_files fs p = Some ls"
  by (simp add: open_lines_def split: option.splits)

lemma dict_get_Inr: "dict_get d k = Inr v \<longleftrightarrow> map_of d k = Some v"
  by (simp add: dict_get_def split: option.splits)

lemma load_train_class_Inr:
  assumes "load_train_class fs path dt w2l wnid = Inr (X, y)"
  shows "\<exists>f label.
           text_files fs (boxes_file path wnid) = Some f \<and>
           map_of w2l wnid = Some label \<and>
           length X = length f \<and> y = replicate (length f) label \<and>
           (\<forall>j<length f. load_image fs dt (train_image path wnid (f ! j)) = Inr (X ! j))"
proof -
  from assms obtain f label where
    f: "text_files fs (boxes_file path wnid) = Some f" and
    l: "map_of w2l wnid = Some label" and
    X: "list_all2 (\<lambda>img_file slot.
          load_image fs dt (path_join path [''train'', wnid, ''images'', img_file]) = Inr slot)
          (map (\<lambda>x. hd (split_on TAB x)) f) X" and
    y: "y = replicate (length f) label"
    unfolding load_train_class_def
    by (auto simp: rbind_Inr rmap_Inr Let_def open_lines_Inr dict_get_Inr)
  have len: "length X = length f"
    using X by (auto dest: list_all2_lengthD)
  have "load_image fs dt (train_image path wnid (f ! j)) = Inr (X ! j)" if "j < length f" for j
    using list_all2_nthD [OF X, of j] that by simp
  with f l len y show ?thesis by blast
qed

lemma load_train_Inr:
  assumes "load_train fs path dt w2l tw = Inr (Xtr, ytr)"
  shows "tw \<noteq> [] \<and>
         (\<exists>blocks. length blocks = length tw \<and>
            Xtr = concat (map fst blocks) \<and> ytr = concat (map snd blocks) \<and>
            (\<forall>k<length tw. load_train_class fs path dt w2l (tw ! k) = Inr (blocks ! k)))"
proof -
  from assms obtain blocks where
    b: "list_all2 (\<lambda>w b. load_train_class fs path dt w2l w = Inr b) tw blocks" and
    ne: "blocks \<noteq> []" and
    eq: "Xtr = concat (map fst blocks)" "ytr = concat (map snd blocks)"
    unfolding load_train_def by (auto simp: rbind_Inr rmap_Inr split: if_splits)
  have len: "length blocks = length tw"
    using b by (auto dest: list_all2_lengthD)
  moreover have "load_train_class fs path dt w2l (tw ! k) = Inr (blocks ! k)"
    if "k < length tw" for k
    using list_all2_nthD [OF b that] .
  ultimately show ?thesis
    using ne eq by auto
qed





subsection \<open>The other fixtures, evaluated\<close>

lemma fx_dup_load:
  "load_tiny_imagenet fx_dup ''d'' True dt_real False False 3 = Inr fx_dup_result"
proof -
  have w: "read_wnids fx_dup ''d'' = Inr [''a'', ''a'']"
    by (simp add: read_wnids_def io_defs fx_dup_def fx_dup_text_def)
  have ws: "read_words fx_dup ''d'' = Inr [(''a'', [''cat''])]"
    by (simp add: read_words_def io_defs fx_dup_def fx_dup_text_def)
  have w2l: "make_wnid_to_label [''a'', ''a''] = [(''a'', Suc 0)]"
    by (simp add: make_wnid_to_label_def enumerate_eq_zip dict_of_def upt_rec)
  have l2w: "make_label_to_wnid [(''a'', Suc 0)] = [(Suc 0, ''a'')]"
    by (simp add: make_label_to_wnid_def dict_of_def)
  have c: "load_train_class fx_dup ''d'' dt_real [(''a'', Suc 0)] ''a''
             = Inr ([replicate slot_size 7], [Suc 0])"
    by (simp add: load_train_class_def io_defs img_defs fx_dup_def fx_dup_text_def
          fx_images_def dt_real_sel)
  have t: "load_train fx_dup ''d'' dt_real [(''a'', Suc 0)] [''a'', ''a'']
             = Inr ([replicate slot_size 7, replicate slot_size 7], [Suc 0, Suc 0])"
    by (simp add: load_train_def c rbind_def)
  have v: "load_val fx_dup ''d'' dt_real [(''a'', Suc 0)] = Inr ([], [])"
    by (simp add: load_val_def io_defs fx_dup_def fx_dup_text_def)
  have "load_data fx_dup ''d'' True dt_real False 3 = Inr fx_dup_result"
    by (simp add: load_data_def w ws w2l l2w t v rbind_def dict_get_def fx_dup_result_def)
  then show ?thesis
    by (simp add: load_tiny_imagenet_def rbind_def)
qed

lemma fx_data_train:
  "load_data fx ''d'' True dt_real False 3 =
     Inr \<lparr> class_names = [[''cat'', ''kitty''], [''dog'']],
           X_train = Some [replicate slot_size 7, replicate slot_size 3],
           y_train = Some [0, Suc 0],
           X_val = Some [replicate slot_size 9], y_val = Some [Suc 0],
           X_test = None, mean_image = None,
           label_to_wnid = [(0, ''a''), (Suc 0, ''b'')],
           test_image_names = None \<rparr>"
  by (simp add: load_data_def fx_wnids fx_words fx_w2l fx_l2w fx_train fx_val rbind_def
        dict_get_def)

lemma fx_load_train:
  "load_tiny_imagenet fx ''d'' True dt_real True False 3 = Inr fx_train_result"
  by (simp add: load_tiny_imagenet_def fx_data_train subtract_mean_step_def fx_mean rbind_def
        subtract_block_def dt_real_sel fx_train_result_def)

subsection \<open>Slots, the mean image and the validation stage\<close>

lemma rmap_load_image_slots:
  "rmap (\<lambda>x. load_image fs dt (g x)) xs = Inr X \<Longrightarrow> img \<in> set X \<Longrightarrow> length img = slot_size"
proof -
  assume "rmap (\<lambda>x. load_image fs dt (g x)) xs = Inr X" "img \<in> set X"
  then obtain i where "load_image fs dt (g (xs ! i)) = Inr img"
    by (auto simp: rmap_Inr list_all2_conv_all_nth in_set_conv_nth)
  then show "length img = slot_size"
    by (rule load_image_length)
qed


lemma load_val_Inr:
  assumes "load_val fs path dt w2l = Inr (Xv, yv)"
  shows "\<exists>f. text_files fs (path_join path [''val'', ''val_annotations.txt'']) = Some f \<and>
           length Xv = length f \<and> length yv = length f \<and>
           (\<forall>j<length f. \<exists>img_file wnid.
              take 2 (split_on TAB (f ! j)) = [img_file, wnid] \<and>
              map_of w2l wnid = Some (yv ! j) \<and>
              load_image fs dt (path_join path [''val'', ''images'', img_file]) = Inr (Xv ! j))"
proof -
  from assms obtain f pairs where
    f: "text_files fs (path_join path [''val'', ''val_annotations.txt'']) = Some f" and
    p: "list_all2 (\<lambda>line pr. (case take 2 (split_on TAB line) of
                                 [img_file, wnid] \<Rightarrow> Inr (img_file, wnid)
                               | _ \<Rightarrow> Inl ValueError) = Inr pr) f pairs" and
    y: "list_all2 (\<lambda>w l. map_of w2l w = Some l) (map snd pairs) yv" and
    X: "list_all2 (\<lambda>img_file slot.
          load_image fs dt (path_join path [''val'', ''images'', img_file]) = Inr slot)
          (map fst pairs) Xv"
    unfolding load_val_def
    by (auto simp: rbind_Inr rmap_Inr Let_def open_lines_Inr dict_get_Inr)
  have lp: "length pairs = length f"
    using p by (auto dest: list_all2_lengthD)
  have ly: "length yv = length f"
    using y lp by (auto dest: list_all2_lengthD)
  have lX: "length Xv = length f"
    using X lp by (auto dest: list_all2_lengthD)
  have "\<exists>img_file wnid.
          take 2 (split_on TAB (f ! j)) = [img_file, wnid] \<and>
          map_of w2l wnid = Some (yv ! j) \<and>
          load_image fs dt (path_join path [''val'', ''images'', img_file]) = Inr (Xv ! j)"
    if j: "j < length f" for j
  proof -
    from list_all2_nthD [OF p j]
    have "take 2 (split_on TAB (f ! j)) = [fst (pairs ! j), snd (pairs ! j)]"
      by (cases "pairs ! j") (auto split: list.splits)
    moreover from list_all2_nthD [OF y, of j] j lp
    have "map_of w2l (snd (pairs ! j)) = Some (yv ! j)"
      by simp
    moreover from list_all2_nthD [OF X, of j] j lp
    have "load_image fs dt (path_join path [''val'', ''images'', fst (pairs ! j)]) = Inr (Xv ! j)"
      by simp
    ultimately show ?thesis by blast
  qed
  with f lX ly show ?thesis by blast
qed







lemma wnid_to_label_None: "map_of (make_wnid_to_label wnids) w = None \<longleftrightarrow> w \<notin> set wnids"
proof -
  have "map fst (map (\<lambda>(i, wnid). (wnid, i)) (enumerate 0 wnids)) = wnids"
    by (simp add: case_prod_beta comp_def)
  then have "fst ` set (map (\<lambda>(i, wnid). (wnid, i)) (enumerate 0 wnids)) = set wnids"
    by (metis set_map)
  then show ?thesis
    by (simp add: make_wnid_to_label_def map_of_dict_of map_of_eq_None_iff)
qed

lemma two_fields: "2 \<le> length xs \<Longrightarrow> \<exists>a b rest. xs = a # b # rest"
  by (auto simp: numeral_2_eq_2 Suc_le_length_iff)

lemma load_val_label_error:
  assumes f: "text_files fs (path_join path [''val'', ''val_annotations.txt'']) = Some f"
      and two: "\<forall>l\<in>set f. 2 \<le> length (split_on TAB l)"
      and bad: "\<exists>l\<in>set f. split_on TAB l ! 1 \<notin> set wnids"
  shows "\<exists>w. w \<notin> set wnids \<and> load_val fs path dt (make_wnid_to_label wnids) = Inl (KeyError w)"
proof -
  let ?parse = "\<lambda>line. case take 2 (split_on TAB line) of
                            [img_file, wnid] \<Rightarrow> Inr (img_file, wnid)
                          | _ \<Rightarrow> (Inl ValueError :: error + string \<times> string)"
  let ?pair = "\<lambda>l. (split_on TAB l ! 0, split_on TAB l ! 1)"
  let ?w2l = "make_wnid_to_label wnids"
  have each: "?parse l = Inr (?pair l)" if "l \<in> set f" for l
  proof -
    from two that have "2 \<le> length (split_on TAB l)" by blast
    then obtain a b rest where "split_on TAB l = a # b # rest"
      using two_fields by blast
    then show ?thesis by simp
  qed
  have "list_all2 (\<lambda>x y. ?parse x = Inr y) f (map ?pair f)"
    unfolding list_all2_conv_all_nth
  proof (intro conjI allI impI)
    show "length f = length (map ?pair f)" by simp
  next
    fix i assume "i < length f"
    then show "?parse (f ! i) = Inr (map ?pair f ! i)"
      by (simp only: nth_map each [OF nth_mem])
  qed
  then have p0: "rmap ?parse f = Inr (map ?pair f)"
    by (simp only: rmap_Inr)
  define pairs where "pairs = map ?pair f"
  have p: "rmap ?parse f = Inr pairs"
    unfolding pairs_def by (rule p0)
  from bad obtain l where l: "l \<in> set f" "split_on TAB l ! 1 \<notin> set wnids"
    by blast
  have mem: "split_on TAB l ! 1 \<in> set (map snd pairs)"
    unfolding pairs_def using l(1) by (simp add: comp_def)
  have "map_of ?w2l (split_on TAB l ! 1) = None"
    using l(2) by (simp add: wnid_to_label_None)
  then have "dict_get ?w2l (split_on TAB l ! 1) = Inl (KeyError (split_on TAB l ! 1))"
    by (simp add: dict_get_def)
  from rmap_fails [where f = "dict_get ?w2l", OF mem this] obtain e where
    e: "rmap (dict_get ?w2l) (map snd pairs) = Inl e"
    by (rule exE)
  from rmap_Inl [OF e] obtain w where w: "dict_get ?w2l w = Inl e"
    by (rule bexE)
  then have "e = KeyError w \<and> map_of ?w2l w = None"
    by (cases "map_of ?w2l w") (simp_all add: dict_get_def)
  then have ew: "e = KeyError w" "w \<notin> set wnids"
    by (simp_all add: wnid_to_label_None)
  have o: "open_lines fs (path_join path [''val'', ''val_annotations.txt'']) = Inr f"
    by (simp add: open_lines_def f)
  have "load_val fs path dt ?w2l = Inl e"
    by (simp add: load_val_def o rbind_def p e Let_def)
  with ew show ?thesis by blast
qed

subsection \<open>The debug load and the unknown validation class, evaluated\<close>

lemma fx_load_debug:
  "load_tiny_imagenet fx ''d'' True dt_real True True 1 = Inr fx_debug_result"
proof -
  have t: "load_train fx ''d'' dt_real [(''a'', 0), (''b'', Suc 0)] [''a'']
             = Inr ([replicate slot_size 7], [0])"
    by (simp add: load_train_def fx_train_a rbind_def)
  have m: "mean_axis0 dt_real [replicate slot_size 7] = replicate slot_size 7"
    unfolding mean_axis0_def by (rule map_upt_const) (simp add: dt_real_sel)
  have "load_data fx ''d'' True dt_real True 1 =
     Inr \<lparr> class_names = [[''cat'', ''kitty''], [''dog'']],
           X_train = Some [replicate slot_size 7],
           y_train = Some [0],
           X_val = Some [replicate slot_size 9], y_val = Some [Suc 0],
           X_test = None, mean_image = None,
           label_to_wnid = [(0, ''a''), (Suc 0, ''b'')],
           test_image_names = None \<rparr>"
    by (simp add: load_data_def fx_wnids fx_words fx_w2l fx_l2w t fx_val rbind_def
          dict_get_def py_take_def)
  then show ?thesis
    by (simp add: load_tiny_imagenet_def subtract_mean_step_def m rbind_def
          subtract_block_def dt_real_sel fx_debug_result_def)
qed

lemma fx_bad_train:
  "load_train fx_bad ''d'' dt_real (make_wnid_to_label (map strip [''a\<newline>'', ''b\<newline>'']))
     (if False then py_take 3 (map strip [''a\<newline>'', ''b\<newline>''])
      else map strip [''a\<newline>'', ''b\<newline>''])
     = Inr ([replicate slot_size 7, replicate slot_size 3], [0, Suc 0])"
proof -
  have s: "map strip [''a\<newline>'', ''b\<newline>''] = [''a'', ''b'']"
    by (simp add: strip_def is_space_def)
  have a: "load_train_class fx_bad ''d'' dt_real [(''a'', 0), (''b'', Suc 0)] ''a''
             = Inr ([replicate slot_size 7], [0])"
    by (simp add: load_train_class_def io_defs img_defs fx_defs fx_bad_def)
  have b: "load_train_class fx_bad ''d'' dt_real [(''a'', 0), (''b'', Suc 0)] ''b''
             = Inr ([replicate slot_size 3], [Suc 0])"
    by (simp add: load_train_class_def io_defs img_defs fx_defs fx_bad_def)
  show ?thesis
    unfolding s fx_w2l by (simp add: load_train_def a b rbind_def)
qed

subsection \<open>Every slot of a load, by the file it was decoded from\<close>

lemma load_image_present:
  "load_image fs dt p = Inr s \<Longrightarrow> \<exists>img. image_files fs p = Some (Some img)"
  by (auto simp: load_image_def rbind_Inr imread_def split: option.splits)




lemma listdir_Inr: "listdir fs p = Inr ns \<longleftrightarrow> directories fs p = Some ns"
  by (simp add: listdir_def split: option.splits)

lemma hd_take2: "take 2 xs = [a, b] \<Longrightarrow> hd xs = a"
  by (cases xs) auto

lemma load_data_positions:
  assumes "load_data fs path it dt dbg n = Inr D"
      and Q: "\<And>p slot. load_image fs dt p = Inr slot \<Longrightarrow> Q p slot"
  shows "\<exists>ls blocks.
           text_files fs (path_join path [''wnids.txt'']) = Some ls \<and>
           X_train D = Some (concat blocks) \<and>
           length blocks = length (train_wnids dbg n ls) \<and>
           (\<forall>k<length (train_wnids dbg n ls). \<exists>bl.
              text_files fs (boxes_file path (train_wnids dbg n ls ! k)) = Some bl \<and>
              length (blocks ! k) = length bl \<and>
              (\<forall>j<length bl.
                 Q (train_image path (train_wnids dbg n ls ! k) (bl ! j)) (blocks ! k ! j))) \<and>
           (if it
            then \<exists>vl Xv.
                   text_files fs (path_join path [''val'', ''val_annotations.txt'']) = Some vl \<and>
                   X_val D = Some Xv \<and> length Xv = length vl \<and>
                   (\<forall>j<length vl. Q (val_image path (vl ! j)) (Xv ! j))
            else \<exists>names Xt.
                   directories fs (path_join path [''test'', ''images'']) = Some names \<and>
                   X_test D = Some Xt \<and> length Xt = length names \<and>
                   (\<forall>j<length names.
                      Q (path_join path [''test'', ''images'', names ! j]) (Xt ! j)))"
  using assms(1)
proof (rule load_data_Inr)
  fix wnids w2w names Xtr ytr Xv yv Xt ns
  assume w: "read_wnids fs path = Inr wnids"
    and tr: "load_train fs path dt (make_wnid_to_label wnids)
                (if dbg then py_take n wnids else wnids) = Inr (Xtr, ytr)"
    and v: "if it then (\<exists>a b. load_val fs path dt (make_wnid_to_label wnids) = Inr (a, b)
                          \<and> Xv = Some a \<and> yv = Some b)
            else Xv = None \<and> yv = None"
    and t: "if it then Xt = None \<and> ns = None
            else (\<exists>a b. load_test fs path dt = Inr (a, b) \<and> Xt = Some a \<and> ns = Some b)"
    and D: "D = \<lparr> class_names = names, X_train = Some Xtr, y_train = Some ytr,
           X_val = Xv, y_val = yv, X_test = Xt, mean_image = None,
           label_to_wnid = make_label_to_wnid (make_wnid_to_label wnids),
           test_image_names = ns \<rparr>"
  from w obtain ls where
    ls: "text_files fs (path_join path [''wnids.txt'']) = Some ls" "wnids = map strip ls"
    by (auto simp: read_wnids_Inr)
  let ?tw = "train_wnids dbg n ls"
  let ?w2l = "make_wnid_to_label wnids"
  from tr have tr': "load_train fs path dt ?w2l ?tw = Inr (Xtr, ytr)"
    unfolding ls(2) .
  from load_train_Inr [OF tr'] obtain pb where
    pb: "length pb = length ?tw" "Xtr = concat (map fst pb)"
        "\<forall>k<length ?tw. load_train_class fs path dt ?w2l (?tw ! k) = Inr (pb ! k)"
    by blast
  have train: "\<exists>bl. text_files fs (boxes_file path (?tw ! k)) = Some bl \<and>
                 length (map fst pb ! k) = length bl \<and>
                 (\<forall>j<length bl. Q (train_image path (?tw ! k) (bl ! j)) (map fst pb ! k ! j))"
    if k: "k < length ?tw" for k
  proof -
    from pb(3) k have "load_train_class fs path dt ?w2l (?tw ! k) = Inr (fst (pb ! k), snd (pb ! k))"
      by simp
    from load_train_class_Inr [OF this] obtain f where
      "text_files fs (boxes_file path (?tw ! k)) = Some f"
      "length (fst (pb ! k)) = length f"
      "\<forall>j<length f. load_image fs dt (train_image path (?tw ! k) (f ! j))
                       = Inr (fst (pb ! k) ! j)"
      by blast
    with k pb(1) show ?thesis
      by (intro exI [of _ f]) (simp add: Q)
  qed
  have rest: "if it
            then \<exists>vl Xv.
                   text_files fs (path_join path [''val'', ''val_annotations.txt'']) = Some vl \<and>
                   X_val D = Some Xv \<and> length Xv = length vl \<and>
                   (\<forall>j<length vl. Q (val_image path (vl ! j)) (Xv ! j))
            else \<exists>names Xt.
                   directories fs (path_join path [''test'', ''images'']) = Some names \<and>
                   X_test D = Some Xt \<and> length Xt = length names \<and>
                   (\<forall>j<length names.
                      Q (path_join path [''test'', ''images'', names ! j]) (Xt ! j))"
  proof (cases it)
    case True
    with v obtain a b where
      ab: "load_val fs path dt ?w2l = Inr (a, b)" "Xv = Some a"
      by auto
    from load_val_Inr [OF ab(1)] obtain f where
      f: "text_files fs (path_join path [''val'', ''val_annotations.txt'']) = Some f"
         "length a = length f"
         "\<forall>j<length f. \<exists>img_file wnid.
            take 2 (split_on TAB (f ! j)) = [img_file, wnid] \<and>
            map_of ?w2l wnid = Some (b ! j) \<and>
            load_image fs dt (path_join path [''val'', ''images'', img_file]) = Inr (a ! j)"
      by blast
    have "Q (val_image path (f ! j)) (a ! j)" if "j < length f" for j
    proof -
      from f(3) that obtain img_file wnid where
        "take 2 (split_on TAB (f ! j)) = [img_file, wnid]"
        "load_image fs dt (path_join path [''val'', ''images'', img_file]) = Inr (a ! j)"
        by blast
      then show ?thesis
        by (simp add: hd_take2 Q)
    qed
    with f(1,2) ab(2) D True show ?thesis
      by auto
  next
    case False
    with t obtain a b where
      ab: "load_test fs path dt = Inr (a, b)" "Xt = Some a"
      by auto
    from load_test_Inr [OF ab(1)] obtain names where
      "listdir fs (path_join path [''test'', ''images'']) = Inr names"
      "b = map (\<lambda>f. path_join path [''test'', ''images'', f]) names"
      "length a = length names"
      "\<forall>i<length names. load_image fs dt (b ! i) = Inr (a ! i)"
      by blast
    with ab(2) D False show ?thesis
      by (auto simp: listdir_Inr Q)
  qed
  have Xtr: "X_train D = Some (concat (map fst pb))"
    by (simp add: D pb(2))
  have len: "length (map fst pb) = length ?tw"
    using pb(1) by simp
  have tr_all: "\<forall>k<length ?tw. \<exists>bl.
                  text_files fs (boxes_file path (?tw ! k)) = Some bl \<and>
                  length (map fst pb ! k) = length bl \<and>
                  (\<forall>j<length bl. Q (train_image path (?tw ! k) (bl ! j)) (map fst pb ! k ! j))"
    using train by blast
  show ?thesis
    by (rule exI [of _ ls], rule exI [of _ "map fst pb"])
       (rule conjI [OF ls(1) conjI [OF Xtr conjI [OF len conjI [OF tr_all rest]]]])
qed


lemma read_words_present:
  "read_words fs path = Inr w2w \<Longrightarrow> \<exists>ww. text_files fs (path_join path [''words.txt'']) = Some ww"
  by (auto simp: read_words_def rbind_Inr open_lines_Inr)

subsection \<open>What a load depends on\<close>

lemma load_image_cong:
  "image_files fs1 = image_files fs2 \<Longrightarrow> load_image fs1 dt p = load_image fs2 dt p"
  by (simp add: load_image_def imread_def)

lemma load_train_class_cong:
  assumes "text_files fs1 (boxes_file path wnid) = text_files fs2 (boxes_file path wnid)"
      and "image_files fs1 = image_files fs2"
  shows "load_train_class fs1 path dt w2l wnid = load_train_class fs2 path dt w2l wnid"
  by (simp add: load_train_class_def open_lines_def assms(1) load_image_cong [OF assms(2)])

lemma load_data_cong:
  assumes tw: "text_files fs1 (path_join path [''wnids.txt''])
                 = text_files fs2 (path_join path [''wnids.txt''])"
      and ts: "text_files fs1 (path_join path [''words.txt''])
                 = text_files fs2 (path_join path [''words.txt''])"
      and tb: "\<And>wnid. text_files fs1 (boxes_file path wnid) = text_files fs2 (boxes_file path wnid)"
      and tv: "it \<Longrightarrow> text_files fs1 (path_join path [''val'', ''val_annotations.txt''])
                       = text_files fs2 (path_join path [''val'', ''val_annotations.txt''])"
      and im: "image_files fs1 = image_files fs2"
      and di: "\<not> it \<Longrightarrow> directories fs1 (path_join path [''test'', ''images''])
                         = directories fs2 (path_join path [''test'', ''images''])"
  shows "load_data fs1 path it dt dbg n = load_data fs2 path it dt dbg n"
proof -
  have w: "read_wnids fs1 path = read_wnids fs2 path"
    by (simp add: read_wnids_def open_lines_def tw)
  have s: "read_words fs1 path = read_words fs2 path"
    by (simp add: read_words_def open_lines_def ts)
  have "load_train_class fs1 path dt w2l = load_train_class fs2 path dt w2l" for w2l
    by (rule ext) (rule load_train_class_cong [OF tb im])
  then have t: "load_train fs1 path dt w2l tws = load_train fs2 path dt w2l tws" for w2l tws
    by (simp add: load_train_def)
  have v: "load_val fs1 path dt w2l = load_val fs2 path dt w2l" if it for w2l
    by (simp add: load_val_def open_lines_def tv [OF that] load_image_cong [OF im])
  have e: "load_test fs1 path dt = load_test fs2 path dt" if "\<not> it"
    by (simp add: load_test_def listdir_def di [OF that] load_image_cong [OF im])
  show ?thesis
  proof (cases it)
    case True
    then show ?thesis
      by (simp add: load_data_def w s t v)
  next
    case False
    then show ?thesis
      by (simp add: load_data_def w s t e)
  qed
qed

lemma join2_suffix: "\<exists>q. join2 p b = q @ b"
proof (cases "take 1 b = ''/''")
  case True
  then have "join2 p b = [] @ b"
    by (simp add: join2_def)
  then show ?thesis ..
next
  case False
  show ?thesis
  proof (cases "p = [] \<or> last p = CHR ''/''")
    case True
    with False have "join2 p b = p @ b"
      by (simp add: join2_def)
    then show ?thesis ..
  next
    case no_sep: False
    with False have "join2 p b = (p @ ''/'') @ b"
      by (simp add: join2_def)
    then show ?thesis ..
  qed
qed

lemma suffix_neq: "length s = length t \<Longrightarrow> s \<noteq> t \<Longrightarrow> q @ s \<noteq> q' @ t"
  by simp

lemma val_manifest_suffix: "\<exists>q. val_manifest path = q @ ''tions.txt''"
proof -
  from join2_suffix [of "join2 path ''val''" "''val_annotations.txt''"]
  obtain q where "join2 (join2 path ''val'') ''val_annotations.txt'' = q @ ''val_annotations.txt''"
    by (rule exE)
  then have "val_manifest path = (q @ ''val_annota'') @ ''tions.txt''"
    by (simp add: path_join_def)
  show ?thesis
    by (rule exI [of _ "q @ ''val_annota''"]) fact
qed

lemma wnids_neq_val: "path_join path [''wnids.txt''] \<noteq> val_manifest path"
proof -
  obtain q where q: "val_manifest path = q @ ''tions.txt''"
    using val_manifest_suffix by blast
  from join2_suffix [of path "''wnids.txt''"]
  obtain q' where "join2 path ''wnids.txt'' = q' @ ''wnids.txt''"
    by (rule exE)
  then have q': "path_join path [''wnids.txt''] = q' @ ''wnids.txt''"
    by (simp add: path_join_def)
  show ?thesis
    unfolding q q' by (rule suffix_neq) simp_all
qed

lemma words_neq_val: "path_join path [''words.txt''] \<noteq> val_manifest path"
proof -
  obtain q where q: "val_manifest path = q @ ''tions.txt''"
    using val_manifest_suffix by blast
  from join2_suffix [of path "''words.txt''"]
  obtain q' where "join2 path ''words.txt'' = q' @ ''words.txt''"
    by (rule exE)
  then have q': "path_join path [''words.txt''] = q' @ ''words.txt''"
    by (simp add: path_join_def)
  show ?thesis
    unfolding q q' by (rule suffix_neq) simp_all
qed

lemma boxes_neq_val: "boxes_file path wnid \<noteq> val_manifest path"
proof -
  obtain q where q: "val_manifest path = q @ ''tions.txt''"
    using val_manifest_suffix by blast
  from join2_suffix [of "join2 (join2 path ''train'') wnid" "wnid @ ''_boxes.txt''"]
  obtain q' where
    "join2 (join2 (join2 path ''train'') wnid) (wnid @ ''_boxes.txt'') = q' @ wnid @ ''_boxes.txt''"
    by (rule exE)
  then have q': "boxes_file path wnid = (q' @ wnid @ ''_'') @ ''boxes.txt''"
    by (simp add: path_join_def)
  show ?thesis
    unfolding q q' by (rule suffix_neq) simp_all
qed

lemma load_train_present:
  assumes "load_train fs path dt w2l tw = Inr (Xtr, ytr)"
  shows "\<forall>wnid\<in>set tw. \<exists>bl.
           text_files fs (boxes_file path wnid) = Some bl \<and>
           (\<forall>line\<in>set bl. \<exists>img.
              image_files fs (train_image path wnid line) = Some (Some img))"
proof
  fix wnid assume "wnid \<in> set tw"
  then obtain k where k: "k < length tw" "tw ! k = wnid"
    by (auto simp: in_set_conv_nth)
  from load_train_Inr [OF assms] obtain pb where
    "\<forall>k<length tw. load_train_class fs path dt w2l (tw ! k) = Inr (pb ! k)"
    by blast
  with k have "load_train_class fs path dt w2l wnid = Inr (fst (pb ! k), snd (pb ! k))"
    by auto
  from load_train_class_Inr [OF this] obtain bl where
    bl: "text_files fs (boxes_file path wnid) = Some bl"
        "\<forall>j<length bl. load_image fs dt (train_image path wnid (bl ! j)) = Inr (fst (pb ! k) ! j)"
    by blast
  have "\<exists>img. image_files fs (train_image path wnid line) = Some (Some img)"
    if "line \<in> set bl" for line
  proof -
    from that obtain j where "j < length bl" "bl ! j = line"
      by (auto simp: in_set_conv_nth)
    with bl(2) have "load_image fs dt (train_image path wnid line) = Inr (fst (pb ! k) ! j)"
      by auto
    then show ?thesis
      by (rule load_image_present)
  qed
  with bl(1) show "\<exists>bl. text_files fs (boxes_file path wnid) = Some bl \<and>
           (\<forall>line\<in>set bl. \<exists>img.
              image_files fs (train_image path wnid line) = Some (Some img))"
    by blast
qed

lemma test_mode_ignores_val_manifest:
  "load_tiny_imagenet (fs\<lparr> text_files := (text_files fs)(val_manifest path := v) \<rparr>)
     path False dt sm dbg n
   = load_tiny_imagenet fs path False dt sm dbg n"
proof -
  have "load_data (fs\<lparr> text_files := (text_files fs)(val_manifest path := v) \<rparr>)
          path False dt dbg n
        = load_data fs path False dt dbg n"
    by (rule load_data_cong) (simp_all add: wnids_neq_val words_neq_val boxes_neq_val)
  then show ?thesis
    by (simp add: load_tiny_imagenet_def)
qed

section \<open>The claims\<close>

text \<open>
  C5. A call with \<open>is_training = False\<close> that returns has no training and no validation
  block (all four are \<open>None\<close>); \<open>test_image_names\<close> is as long as the test image block, it
  is the directory listing of \<^verbatim>\<open>test/images\<close> with each name joined to that directory's
  path, and the entry at a position is the path whose image was decoded into that position
  of the block (less the mean image when \<open>subtract_mean\<close> is set).
\<close>

theorem test_mode_result:
  assumes "load_tiny_imagenet fs path False dt sm dbg n = Inr r"
  shows "X_train r = None \<and> y_train r = None \<and> X_val r = None \<and> y_val r = None \<and>
         (\<exists>X names ls.
            X_test r = Some X \<and> test_image_names r = Some names \<and>
            length names = length X \<and>
            listdir fs (path_join path [''test'', ''images'']) = Inr ls \<and>
            names = map (\<lambda>f. path_join path [''test'', ''images'', f]) ls \<and>
            (\<forall>i<length X. \<exists>slot.
               load_image fs dt (names ! i) = Inr slot \<and>
               X ! i = (if sm
                        then map (\<lambda>(x, y). minus dt x y) (zip slot (the (mean_image r)))
                        else slot)))"
proof -
  from assms obtain D D' where
    D: "load_data fs path False dt dbg n = Inr D" and
    D': "if sm then subtract_mean_step dt False D = Inr D' else D' = D" and
    r: "r = D'\<lparr> X_train := None, y_train := None \<rparr>"
    by (auto elim!: load_Inr)
  from D obtain Xtr Xt ns where
    t: "load_test fs path dt = Inr (Xt, ns)" and
    f: "X_train D = Some Xtr" "X_val D = None" "y_val D = None"
       "X_test D = Some Xt" "test_image_names D = Some ns" "mean_image D = None"
    by (auto elim!: load_data_Inr)
  from load_test_Inr [OF t] obtain ls where
    ls: "listdir fs (path_join path [''test'', ''images'']) = Inr ls"
        "ns = map (\<lambda>f. path_join path [''test'', ''images'', f]) ls"
        "length Xt = length ls"
        "\<forall>i<length ls. load_image fs dt (ns ! i) = Inr (Xt ! i)"
    by blast
  show ?thesis
  proof (cases sm)
    case False
    with D' r f ls show ?thesis by auto
  next
    case True
    with D' f have D'_eq:
      "D' = D\<lparr> X_test := Some (subtract_block dt Xt (mean_axis0 dt Xtr)),
               mean_image := Some (mean_axis0 dt Xtr) \<rparr>"
      by (auto simp: subtract_mean_step_def Let_def split: if_splits)
    show ?thesis
      using True r f ls unfolding D'_eq by (auto simp: subtract_block_def)
  qed
qed

theorem test_mode_result_witness:
  "load_tiny_imagenet fx ''d'' False dt_real True False 3 = Inr fx_test_result \<and>
   X_train fx_test_result = None \<and> y_train fx_test_result = None \<and>
   X_val fx_test_result = None \<and> y_val fx_test_result = None \<and>
   (\<exists>X names ls.
      X_test fx_test_result = Some X \<and> test_image_names fx_test_result = Some names \<and>
      length names = length X \<and>
      listdir fx (path_join ''d'' [''test'', ''images'']) = Inr ls \<and>
      names = map (\<lambda>f. path_join ''d'' [''test'', ''images'', f]) ls \<and>
      (\<forall>i<length X. \<exists>slot.
         load_image fx dt_real (names ! i) = Inr slot \<and>
         X ! i = (if True
                  then map (\<lambda>(x, y). minus dt_real x y)
                         (zip slot (the (mean_image fx_test_result)))
                  else slot)))"
  by (rule conjI [OF fx_load_test test_mode_result [OF fx_load_test]])

text \<open>
  C4, as the code has it. \<open>label_to_wnid\<close> is the inverse of the dictionary from class
  identifier to index, and that dictionary gives an identifier the index of its last line
  in \<^verbatim>\<open>wnids.txt\<close>. So \<open>label_to_wnid[i]\<close> is the trimmed \<open>i\<close>-th line when that identifier
  does not occur again on a later line, and \<open>i\<close> is no key otherwise; when the identifiers
  are pairwise distinct, \<open>label_to_wnid[i]\<close> is the \<open>i\<close>-th identifier for every \<open>i\<close> in
  range.
\<close>

theorem label_to_wnid_inverse:
  assumes "load_tiny_imagenet fs path it dt sm dbg n = Inr r"
  shows "\<exists>ls. text_files fs (path_join path [''wnids.txt'']) = Some ls \<and>
           (\<forall>i w. map_of (label_to_wnid r) i = Some w \<longleftrightarrow>
                    map_of (make_wnid_to_label (map strip ls)) w = Some i) \<and>
           (\<forall>i<length ls.
              map_of (label_to_wnid r) i =
                (if strip (ls ! i) \<in> set (drop (Suc i) (map strip ls)) then None
                 else Some (strip (ls ! i)))) \<and>
           (distinct (map strip ls) \<longrightarrow>
              (\<forall>i<length ls. map_of (label_to_wnid r) i = Some (strip (ls ! i))))"
proof -
  from assms obtain wnids where
    w: "read_wnids fs path = Inr wnids" and
    l: "label_to_wnid r = make_label_to_wnid (make_wnid_to_label wnids)"
    by (cases rule: load_tiny_imagenet_Inr) simp
  from w obtain ls where
    ls: "text_files fs (path_join path [''wnids.txt'']) = Some ls" "wnids = map strip ls"
    by (auto simp: read_wnids_Inr)
  have inv: "map_of (label_to_wnid r) i = Some w \<longleftrightarrow> map_of (make_wnid_to_label wnids) w = Some i"
    for i w
    by (simp add: l label_to_wnid_Some)
  have at: "map_of (label_to_wnid r) i =
              (if wnids ! i \<in> set (drop (Suc i) wnids) then None else Some (wnids ! i))"
    if "i < length wnids" for i
  proof (cases "wnids ! i \<in> set (drop (Suc i) wnids)")
    case True
    have "map_of (label_to_wnid r) i \<noteq> Some w" for w
      using True by (auto simp: inv wnid_to_label_Some)
    then show ?thesis
      using True by (cases "map_of (label_to_wnid r) i") auto
  next
    case False
    then show ?thesis
      using that by (simp add: inv wnid_to_label_Some)
  qed
  have dist: "wnids ! i \<notin> set (drop (Suc i) wnids)" if "distinct wnids" "i < length wnids" for i
  proof
    assume "wnids ! i \<in> set (drop (Suc i) wnids)"
    then obtain j where "j < length wnids - Suc i" "wnids ! (Suc i + j) = wnids ! i"
      by (auto simp: in_set_conv_nth)
    with that show False
      by (auto simp: distinct_conv_nth)
  qed
  show ?thesis
    using ls inv at dist by (auto simp: drop_map)
qed

theorem label_to_wnid_inverse_witness:
  "load_tiny_imagenet fx ''d'' True dt_real True False 3 = Inr fx_train_result \<and>
   map_of (label_to_wnid fx_train_result) 0 = Some ''a'' \<and>
   map_of (label_to_wnid fx_train_result) (Suc 0) = Some ''b'' \<and>
   map_of (make_wnid_to_label [''a'', ''b'']) ''b'' = Some (Suc 0)"
proof -
  from label_to_wnid_inverse [OF fx_load_train] obtain ls where
    ls: "text_files fx (path_join ''d'' [''wnids.txt'']) = Some ls" and
    inv: "\<forall>i w. map_of (label_to_wnid fx_train_result) i = Some w \<longleftrightarrow>
                 map_of (make_wnid_to_label (map strip ls)) w = Some i" and
    d: "distinct (map strip ls) \<longrightarrow>
          (\<forall>i<length ls. map_of (label_to_wnid fx_train_result) i = Some (strip (ls ! i)))"
    by blast
  have ls_eq: "ls = [''a\<newline>'', ''b\<newline>'']"
    using ls by (simp add: fx_def fx_text_def path_join_def join2_def)
  have s: "map strip ls = [''a'', ''b'']"
    by (simp add: ls_eq strip_def is_space_def)
  have "distinct (map strip ls)"
    by (simp add: s)
  with d have all: "\<forall>i<length ls. map_of (label_to_wnid fx_train_result) i = Some (map strip ls ! i)"
    by simp
  from all have a0: "map_of (label_to_wnid fx_train_result) 0 = Some ''a''"
    unfolding s by (simp add: ls_eq)
  from all have a1: "map_of (label_to_wnid fx_train_result) (Suc 0) = Some ''b''"
    unfolding s by (simp add: ls_eq)
  from inv a1 s have "map_of (make_wnid_to_label [''a'', ''b'']) ''b'' = Some (Suc 0)"
    by simp
  with fx_load_train a0 a1 show ?thesis by simp
qed

text \<open>
  C4 as stated fails where \<^verbatim>\<open>wnids.txt\<close> repeats a line: with the lines \<^verbatim>\<open>a\<close>, \<^verbatim>\<open>a\<close> the
  load returns and \<open>label_to_wnid\<close> has the one key 1, so index 0 has no entry.
\<close>

theorem label_to_wnid_counterexample:
  "\<not> (\<forall>fs path it (dt :: real dtype) sm dbg n r ls.
        load_tiny_imagenet fs path it dt sm dbg n = Inr r \<and>
        text_files fs (path_join path [''wnids.txt'']) = Some ls \<longrightarrow>
        (\<forall>i<length ls. map_of (label_to_wnid r) i = Some (strip (ls ! i))))"
proof
  assume a: "\<forall>fs path it (dt :: real dtype) sm dbg n r ls.
        load_tiny_imagenet fs path it dt sm dbg n = Inr r \<and>
        text_files fs (path_join path [''wnids.txt'']) = Some ls \<longrightarrow>
        (\<forall>i<length ls. map_of (label_to_wnid r) i = Some (strip (ls ! i)))"
  have f: "text_files fx_dup (path_join ''d'' [''wnids.txt'']) = Some [''a\<newline>'', ''a\<newline>'']"
    by (simp add: fx_dup_def fx_dup_text_def path_join_def join2_def)
  from a fx_dup_load f
  have "\<forall>i<length [''a\<newline>'', ''a\<newline>''].
          map_of (label_to_wnid fx_dup_result) i = Some (strip ([''a\<newline>'', ''a\<newline>''] ! i))"
    by blast
  then have "map_of (label_to_wnid fx_dup_result) 0 = Some (strip ''a\<newline>'')"
    by simp
  then show False
    by (simp add: fx_dup_result_def)
qed






text \<open>
  C10. A training load with \<open>debug = True\<close> that returns has one validation slot and one
  validation label for every line of \<^verbatim>\<open>val/val_annotations.txt\<close>, whatever \<open>debug_nclass\<close>
  is; the label of a line is the index that the dictionary built from all the lines of
  \<^verbatim>\<open>wnids.txt\<close> gives to the line's second field, and the slot is the image its first
  field names (less the mean image when \<open>subtract_mean\<close> is set).
\<close>

theorem debug_keeps_validation:
  assumes "load_tiny_imagenet fs path True dt sm True n = Inr r"
  shows "\<exists>ls f Xv yv.
           text_files fs (path_join path [''wnids.txt'']) = Some ls \<and>
           text_files fs (path_join path [''val'', ''val_annotations.txt'']) = Some f \<and>
           X_val r = Some Xv \<and> y_val r = Some yv \<and>
           length Xv = length f \<and> length yv = length f \<and>
           (\<forall>j<length f. \<exists>img_file wnid slot.
              take 2 (split_on TAB (f ! j)) = [img_file, wnid] \<and>
              map_of (make_wnid_to_label (map strip ls)) wnid = Some (yv ! j) \<and>
              yv ! j < length ls \<and> strip (ls ! (yv ! j)) = wnid \<and>
              load_image fs dt (path_join path [''val'', ''images'', img_file]) = Inr slot \<and>
              Xv ! j = (if sm
                        then map (\<lambda>(x, y). minus dt x y) (zip slot (the (mean_image r)))
                        else slot))"
  using assms
proof (cases rule: load_tiny_imagenet_Inr)
  case (Loaded wnids w2w names Xtr ytr Xv yv Xt ns)
  from Loaded(1) obtain ls where
    ls: "text_files fs (path_join path [''wnids.txt'']) = Some ls" "wnids = map strip ls"
    by (auto simp: read_wnids_Inr)
  from Loaded(5) have v: "load_val fs path dt (make_wnid_to_label wnids) = Inr (Xv, yv)"
    by simp
  from load_val_Inr [OF v] obtain f where
    f: "text_files fs (path_join path [''val'', ''val_annotations.txt'']) = Some f"
       "length Xv = length f" "length yv = length f"
       "\<forall>j<length f. \<exists>img_file wnid.
          take 2 (split_on TAB (f ! j)) = [img_file, wnid] \<and>
          map_of (make_wnid_to_label wnids) wnid = Some (yv ! j) \<and>
          load_image fs dt (path_join path [''val'', ''images'', img_file]) = Inr (Xv ! j)"
    by blast
  let ?Xv = "if sm then subtract_block dt Xv (mean_axis0 dt Xtr) else Xv"
  have r: "X_val r = Some ?Xv" "y_val r = Some yv"
          "mean_image r = (if sm then Some (mean_axis0 dt Xtr) else None)"
    by (simp_all add: Loaded(8))
  have each: "\<exists>img_file wnid slot.
              take 2 (split_on TAB (f ! j)) = [img_file, wnid] \<and>
              map_of (make_wnid_to_label (map strip ls)) wnid = Some (yv ! j) \<and>
              yv ! j < length ls \<and> strip (ls ! (yv ! j)) = wnid \<and>
              load_image fs dt (path_join path [''val'', ''images'', img_file]) = Inr slot \<and>
              ?Xv ! j = (if sm
                        then map (\<lambda>(x, y). minus dt x y) (zip slot (the (mean_image r)))
                        else slot)"
    if j: "j < length f" for j
  proof -
    from f(4) j obtain img_file wnid where
      a: "take 2 (split_on TAB (f ! j)) = [img_file, wnid]"
         "map_of (make_wnid_to_label wnids) wnid = Some (yv ! j)"
         "load_image fs dt (path_join path [''val'', ''images'', img_file]) = Inr (Xv ! j)"
      by blast
    from a(2) have b: "yv ! j < length ls" "strip (ls ! (yv ! j)) = wnid"
      by (auto simp: wnid_to_label_Some ls(2))
    have c: "?Xv ! j = (if sm
                        then map (\<lambda>(x, y). minus dt x y) (zip (Xv ! j) (the (mean_image r)))
                        else Xv ! j)"
      using j f(2) by (simp add: r(3) subtract_block_def)
    from a b c show ?thesis
      unfolding ls(2) by blast
  qed
  have len: "length ?Xv = length f"
    using f(2) by (simp add: subtract_block_def)
  show ?thesis
    apply (rule exI [of _ ls], rule exI [of _ f], rule exI [of _ ?Xv], rule exI [of _ yv])
    apply (intro conjI ls(1) f(1) r(1,2) len f(3))
    using each apply blast
    done
qed

theorem debug_keeps_validation_witness:
  "load_tiny_imagenet fx ''d'' True dt_real True True 1 = Inr fx_debug_result \<and>
   y_train fx_debug_result = Some [0] \<and>
   y_val fx_debug_result = Some [Suc 0] \<and>
   (\<exists>ls f Xv yv.
      text_files fx (path_join ''d'' [''wnids.txt'']) = Some ls \<and>
      text_files fx (path_join ''d'' [''val'', ''val_annotations.txt'']) = Some f \<and>
      X_val fx_debug_result = Some Xv \<and> y_val fx_debug_result = Some yv \<and>
      length Xv = length f \<and> length yv = length f \<and>
      (\<forall>j<length f. \<exists>img_file wnid slot.
         take 2 (split_on TAB (f ! j)) = [img_file, wnid] \<and>
         map_of (make_wnid_to_label (map strip ls)) wnid = Some (yv ! j) \<and>
         yv ! j < length ls \<and> strip (ls ! (yv ! j)) = wnid \<and>
         load_image fx dt_real (path_join ''d'' [''val'', ''images'', img_file]) = Inr slot \<and>
         Xv ! j = (if True
                   then map (\<lambda>(x, y). minus dt_real x y)
                          (zip slot (the (mean_image fx_debug_result)))
                   else slot)))"
proof -
  have 1: "y_train fx_debug_result = Some [0]" "y_val fx_debug_result = Some [Suc 0]"
    by (simp_all add: fx_debug_result_def)
  show ?thesis
    by (rule conjI [OF fx_load_debug conjI [OF 1(1) conjI [OF 1(2)
          debug_keeps_validation [OF fx_load_debug]]]])
qed

text \<open>
  C9. When a line of \<^verbatim>\<open>val/val_annotations.txt\<close> has, as its second field, an identifier
  that is no (trimmed) line of \<^verbatim>\<open>wnids.txt\<close>, a training load returns an error and no
  result. When the stages before the validation labels succeed and every validation line
  has two fields, the error is the \<open>KeyError\<close> of an identifier that is not in
  \<^verbatim>\<open>wnids.txt\<close>.
\<close>

theorem unknown_val_wnid_fails:
  assumes ls: "text_files fs (path_join path [''wnids.txt'']) = Some ls"
      and f: "text_files fs (path_join path [''val'', ''val_annotations.txt'']) = Some f"
      and line: "line \<in> set f" "take 2 (split_on TAB line) = [img_file, wnid]"
      and bad: "wnid \<notin> set (map strip ls)"
  shows "(\<exists>e. load_tiny_imagenet fs path True dt sm dbg n = Inl e) \<and>
         (\<forall>w2w names Xtr ytr.
            read_words fs path = Inr w2w \<and>
            rmap (dict_get w2w) (map strip ls) = Inr names \<and>
            load_train fs path dt (make_wnid_to_label (map strip ls))
              (if dbg then py_take n (map strip ls) else map strip ls) = Inr (Xtr, ytr) \<and>
            (\<forall>l\<in>set f. 2 \<le> length (split_on TAB l)) \<longrightarrow>
            (\<exists>w. w \<notin> set (map strip ls) \<and>
               load_tiny_imagenet fs path True dt sm dbg n = Inl (KeyError w)))"
proof
  show "\<exists>e. load_tiny_imagenet fs path True dt sm dbg n = Inl e"
  proof (cases "load_tiny_imagenet fs path True dt sm dbg n")
    case (Inl e)
    then show ?thesis by blast
  next
    case (Inr r)
    then have False
    proof (cases rule: load_tiny_imagenet_Inr)
      case (Loaded wnids w2w names Xtr ytr Xv yv Xt ns)
      from Loaded(1) ls have w: "wnids = map strip ls"
        by (simp add: read_wnids_Inr)
      from Loaded(5) have "load_val fs path dt (make_wnid_to_label wnids) = Inr (Xv, yv)"
        by simp
      from load_val_Inr [OF this] f obtain
        a: "\<forall>j<length f. \<exists>img_file wnid.
              take 2 (split_on TAB (f ! j)) = [img_file, wnid] \<and>
              map_of (make_wnid_to_label wnids) wnid = Some (yv ! j) \<and>
              load_image fs dt (path_join path [''val'', ''images'', img_file]) = Inr (Xv ! j)"
        by auto
      from line(1) obtain j where j: "j < length f" "f ! j = line"
        by (auto simp: in_set_conv_nth)
      from a j(1) obtain i' w' where
        "take 2 (split_on TAB (f ! j)) = [i', w']"
        "map_of (make_wnid_to_label wnids) w' = Some (yv ! j)"
        by blast
      with j(2) line(2) have "map_of (make_wnid_to_label wnids) wnid = Some (yv ! j)"
        by simp
      then have "wnid \<in> set wnids"
        by (auto simp: wnid_to_label_Some)
      with bad w show False by simp
    qed
    then show ?thesis ..
  qed
next
  show "\<forall>w2w names Xtr ytr.
            read_words fs path = Inr w2w \<and>
            rmap (dict_get w2w) (map strip ls) = Inr names \<and>
            load_train fs path dt (make_wnid_to_label (map strip ls))
              (if dbg then py_take n (map strip ls) else map strip ls) = Inr (Xtr, ytr) \<and>
            (\<forall>l\<in>set f. 2 \<le> length (split_on TAB l)) \<longrightarrow>
            (\<exists>w. w \<notin> set (map strip ls) \<and>
               load_tiny_imagenet fs path True dt sm dbg n = Inl (KeyError w))"
  proof (intro allI impI, elim conjE)
    fix w2w names Xtr ytr
    assume s: "read_words fs path = Inr w2w"
              "rmap (dict_get w2w) (map strip ls) = Inr names"
              "load_train fs path dt (make_wnid_to_label (map strip ls))
                 (if dbg then py_take n (map strip ls) else map strip ls) = Inr (Xtr, ytr)"
       and two: "\<forall>l\<in>set f. 2 \<le> length (split_on TAB l)"
    from line(1) two obtain a b rest where "split_on TAB line = a # b # rest"
      using two_fields by blast
    with line(2) have "split_on TAB line ! 1 = wnid"
      by simp
    with line(1) bad have "\<exists>l\<in>set f. split_on TAB l ! 1 \<notin> set (map strip ls)"
      by blast
    from load_val_label_error [OF f two this] obtain w where
      w: "w \<notin> set (map strip ls)"
         "load_val fs path dt (make_wnid_to_label (map strip ls)) = Inl (KeyError w)"
      by blast
    have rw: "read_wnids fs path = Inr (map strip ls)"
      using ls by (simp add: read_wnids_Inr)
    have "load_data fs path True dt dbg n = Inl (KeyError w)"
      unfolding load_data_def by (simp add: rw s w(2) rbind_def Let_def)
    then have "load_tiny_imagenet fs path True dt sm dbg n = Inl (KeyError w)"
      by (simp add: load_tiny_imagenet_def rbind_def)
    with w(1) show "\<exists>w. w \<notin> set (map strip ls) \<and>
               load_tiny_imagenet fs path True dt sm dbg n = Inl (KeyError w)"
      by blast
  qed
qed

theorem unknown_val_wnid_fails_witness:
  "text_files fx_bad (path_join ''d'' [''wnids.txt'']) = Some [''a\<newline>'', ''b\<newline>''] \<and>
   text_files fx_bad (path_join ''d'' [''val'', ''val_annotations.txt'']) = Some [bad_line] \<and>
   bad_line \<in> set [bad_line] \<and>
   take 2 (split_on TAB bad_line) = [''val_0.JPEG'', ''zzz''] \<and>
   ''zzz'' \<notin> set (map strip [''a\<newline>'', ''b\<newline>'']) \<and>
   (\<exists>e. load_tiny_imagenet fx_bad ''d'' True dt_real True False 3 = Inl e) \<and>
   (\<exists>w. w \<notin> set (map strip [''a\<newline>'', ''b\<newline>'']) \<and>
      load_tiny_imagenet fx_bad ''d'' True dt_real True False 3 = Inl (KeyError w))"
proof -
  have 1: "text_files fx_bad (path_join ''d'' [''wnids.txt'']) = Some [''a\<newline>'', ''b\<newline>'']"
    by (simp add: fx_bad_def fx_def fx_text_def path_join_def join2_def)
  have 2: "text_files fx_bad (path_join ''d'' [''val'', ''val_annotations.txt'']) = Some [bad_line]"
    by (simp add: fx_bad_def fx_def path_join_def join2_def)
  have 3: "bad_line \<in> set [bad_line]"
    by simp
  have 4: "take 2 (split_on TAB bad_line) = [''val_0.JPEG'', ''zzz'']"
    by (simp add: bad_line_def TAB_def)
  have 5: "''zzz'' \<notin> set (map strip [''a\<newline>'', ''b\<newline>''])"
    by (simp add: strip_def is_space_def)
  note u = unknown_val_wnid_fails [OF 1 2 3 4 5, of dt_real True False 3]
  have w: "read_words fx_bad ''d'' = Inr [(''a'', [''cat'', ''kitty'']), (''b'', [''dog''])]"
    by (simp add: read_words_def io_defs fx_defs fx_bad_def)
  have n: "rmap (dict_get [(''a'', [''cat'', ''kitty'']), (''b'', [''dog''])])
             (map strip [''a\<newline>'', ''b\<newline>'']) = Inr [[''cat'', ''kitty''], [''dog'']]"
    by (simp add: strip_def is_space_def dict_get_def)
  have two: "\<forall>l\<in>set [bad_line]. 2 \<le> length (split_on TAB l)"
    by (simp add: bad_line_def TAB_def)
  from u have "\<exists>e. load_tiny_imagenet fx_bad ''d'' True dt_real True False 3 = Inl e"
    by (rule conjunct1)
  moreover from u [THEN conjunct2] w n fx_bad_train two
  have "\<exists>w. w \<notin> set (map strip [''a\<newline>'', ''b\<newline>'']) \<and>
      load_tiny_imagenet fx_bad ''d'' True dt_real True False 3 = Inl (KeyError w)"
    by blast
  ultimately show ?thesis
    using 1 2 3 4 5 by blast
qed



text \<open>
  C7. A load returns a result only when every read and every decode succeeded:
  \<^verbatim>\<open>wnids.txt\<close> and \<^verbatim>\<open>words.txt\<close> are present; for every class of the (possibly
  truncated) training list the box manifest is present and every image it lists is
  present and decodes; in training mode the validation manifest is present and every
  image it lists is present and decodes; in test mode the directory \<^verbatim>\<open>test/images\<close> can
  be listed and every file in it is present and decodes. The result of a load is an
  error or a dataset, never both, so when one of these fails the load is an error.
\<close>

theorem all_or_nothing:
  assumes "load_tiny_imagenet fs path it dt sm dbg n = Inr r"
  shows "\<exists>ls ww.
           text_files fs (path_join path [''wnids.txt'']) = Some ls \<and>
           text_files fs (path_join path [''words.txt'']) = Some ww \<and>
           (\<forall>wnid\<in>set (train_wnids dbg n ls). \<exists>bl.
              text_files fs (boxes_file path wnid) = Some bl \<and>
              (\<forall>line\<in>set bl. \<exists>img.
                 image_files fs (train_image path wnid line) = Some (Some img))) \<and>
           (if it
            then \<exists>vl.
                   text_files fs (path_join path [''val'', ''val_annotations.txt'']) = Some vl \<and>
                   (\<forall>line\<in>set vl. \<exists>img.
                      image_files fs (val_image path line) = Some (Some img))
            else \<exists>names.
                   directories fs (path_join path [''test'', ''images'']) = Some names \<and>
                   (\<forall>name\<in>set names. \<exists>img.
                      image_files fs (path_join path [''test'', ''images'', name])
                        = Some (Some img)))"
proof -
  from assms obtain D where D: "load_data fs path it dt dbg n = Inr D"
    by (auto elim!: load_Inr)
  from D obtain w2w where "read_words fs path = Inr w2w"
    by (auto elim!: load_data_Inr)
  then obtain ww where ww: "text_files fs (path_join path [''words.txt'']) = Some ww"
    using read_words_present by blast
  let ?P = "\<lambda>p (slot :: 'a list). \<exists>img. image_files fs p = Some (Some img)"
  have "\<exists>ls blocks.
           text_files fs (path_join path [''wnids.txt'']) = Some ls \<and>
           X_train D = Some (concat blocks) \<and>
           length blocks = length (train_wnids dbg n ls) \<and>
           (\<forall>k<length (train_wnids dbg n ls). \<exists>bl.
              text_files fs (boxes_file path (train_wnids dbg n ls ! k)) = Some bl \<and>
              length (blocks ! k) = length bl \<and>
              (\<forall>j<length bl.
                 ?P (train_image path (train_wnids dbg n ls ! k) (bl ! j)) (blocks ! k ! j))) \<and>
           (if it
            then \<exists>vl Xv.
                   text_files fs (path_join path [''val'', ''val_annotations.txt'']) = Some vl \<and>
                   X_val D = Some Xv \<and> length Xv = length vl \<and>
                   (\<forall>j<length vl. ?P (val_image path (vl ! j)) (Xv ! j))
            else \<exists>names Xt.
                   directories fs (path_join path [''test'', ''images'']) = Some names \<and>
                   X_test D = Some Xt \<and> length Xt = length names \<and>
                   (\<forall>j<length names.
                      ?P (path_join path [''test'', ''images'', names ! j]) (Xt ! j)))"
    by (rule load_data_positions [where Q = ?P, OF D]) (erule load_image_present)
  then obtain ls and blocks :: "'a list list list" where
    ls: "text_files fs (path_join path [''wnids.txt'']) = Some ls" and
    tr: "\<forall>k<length (train_wnids dbg n ls). \<exists>bl.
              text_files fs (boxes_file path (train_wnids dbg n ls ! k)) = Some bl \<and>
              length (blocks ! k) = length bl \<and>
              (\<forall>j<length bl. \<exists>img.
                 image_files fs (train_image path (train_wnids dbg n ls ! k) (bl ! j))
                   = Some (Some img))" and
    rest: "if it
            then \<exists>vl Xv.
                   text_files fs (path_join path [''val'', ''val_annotations.txt'']) = Some vl \<and>
                   X_val D = Some Xv \<and> length Xv = length vl \<and>
                   (\<forall>j<length vl. \<exists>img.
                      image_files fs (val_image path (vl ! j)) = Some (Some img))
            else \<exists>names Xt.
                   directories fs (path_join path [''test'', ''images'']) = Some names \<and>
                   X_test D = Some Xt \<and> length Xt = length names \<and>
                   (\<forall>j<length names. \<exists>img.
                      image_files fs (path_join path [''test'', ''images'', names ! j])
                        = Some (Some img))"
    by (elim exE conjE) (rule that, assumption+)
  have tr': "\<forall>wnid\<in>set (train_wnids dbg n ls). \<exists>bl.
              text_files fs (boxes_file path wnid) = Some bl \<and>
              (\<forall>line\<in>set bl. \<exists>img.
                 image_files fs (train_image path wnid line) = Some (Some img))"
  proof
    fix wnid assume "wnid \<in> set (train_wnids dbg n ls)"
    then obtain k where k: "k < length (train_wnids dbg n ls)" "train_wnids dbg n ls ! k = wnid"
      by (auto simp: in_set_conv_nth)
    with tr obtain bl where
      bl: "text_files fs (boxes_file path wnid) = Some bl"
          "\<forall>j<length bl. \<exists>img. image_files fs (train_image path wnid (bl ! j)) = Some (Some img)"
      by (metis (no_types, lifting))
    have "\<forall>line\<in>set bl. \<exists>img. image_files fs (train_image path wnid line) = Some (Some img)"
      using bl(2) by (auto simp: in_set_conv_nth)
    with bl(1) show "\<exists>bl. text_files fs (boxes_file path wnid) = Some bl \<and>
              (\<forall>line\<in>set bl. \<exists>img.
                 image_files fs (train_image path wnid line) = Some (Some img))"
      by blast
  qed
  have rest': "if it
            then \<exists>vl.
                   text_files fs (path_join path [''val'', ''val_annotations.txt'']) = Some vl \<and>
                   (\<forall>line\<in>set vl. \<exists>img.
                      image_files fs (val_image path line) = Some (Some img))
            else \<exists>names.
                   directories fs (path_join path [''test'', ''images'']) = Some names \<and>
                   (\<forall>name\<in>set names. \<exists>img.
                      image_files fs (path_join path [''test'', ''images'', name])
                        = Some (Some img))"
  proof (cases it)
    case True
    with rest obtain vl where
      "text_files fs (path_join path [''val'', ''val_annotations.txt'']) = Some vl"
      "\<forall>j<length vl. \<exists>img. image_files fs (val_image path (vl ! j)) = Some (Some img)"
      by auto
    then have "text_files fs (path_join path [''val'', ''val_annotations.txt'']) = Some vl \<and>
                   (\<forall>line\<in>set vl. \<exists>img.
                      image_files fs (val_image path line) = Some (Some img))"
      by (auto simp: in_set_conv_nth)
    with True show ?thesis by auto
  next
    case False
    with rest obtain names where
      "directories fs (path_join path [''test'', ''images'']) = Some names"
      "\<forall>j<length names. \<exists>img.
          image_files fs (path_join path [''test'', ''images'', names ! j]) = Some (Some img)"
      by auto
    then have "directories fs (path_join path [''test'', ''images'']) = Some names \<and>
                   (\<forall>name\<in>set names. \<exists>img.
                      image_files fs (path_join path [''test'', ''images'', name])
                        = Some (Some img))"
      by (auto simp: in_set_conv_nth)
    with False show ?thesis by auto
  qed
  show ?thesis
    by (rule exI [of _ ls], rule exI [of _ ww])
       (rule conjI [OF ls conjI [OF ww conjI [OF tr' rest']]])
qed

theorem all_or_nothing_witness:
  "load_tiny_imagenet fx ''d'' False dt_real True False 3 = Inr fx_test_result \<and>
   (\<exists>ls ww.
      text_files fx (path_join ''d'' [''wnids.txt'']) = Some ls \<and>
      text_files fx (path_join ''d'' [''words.txt'']) = Some ww \<and>
      (\<forall>wnid\<in>set (train_wnids False 3 ls). \<exists>bl.
         text_files fx (boxes_file ''d'' wnid) = Some bl \<and>
         (\<forall>line\<in>set bl. \<exists>img.
            image_files fx (train_image ''d'' wnid line) = Some (Some img))) \<and>
      (if False
       then \<exists>vl.
              text_files fx (path_join ''d'' [''val'', ''val_annotations.txt'']) = Some vl \<and>
              (\<forall>line\<in>set vl. \<exists>img.
                 image_files fx (val_image ''d'' line) = Some (Some img))
       else \<exists>names.
              directories fx (path_join ''d'' [''test'', ''images'']) = Some names \<and>
              (\<forall>name\<in>set names. \<exists>img.
                 image_files fx (path_join ''d'' [''test'', ''images'', name])
                   = Some (Some img))))"
  by (rule conjI [OF fx_load_test all_or_nothing [OF fx_load_test]])



text \<open>
  C3, as the code has it. A test-mode load that returns has run the training stage,
  whether \<open>subtract_mean\<close> is set or not: the box manifest of every class of the
  (possibly truncated) list was read and every image it lists was decoded; the mean image
  is computed from that block when \<open>subtract_mean\<close> is set; the training and validation
  fields of the result are \<open>None\<close>; the test images are loaded; and the validation
  manifest is not read: the result is the same whatever that file holds, and when it is
  absent.
\<close>

theorem test_mode_reads_training:
  assumes "load_tiny_imagenet fs path False dt sm dbg n = Inr r"
  shows "(\<exists>ls Xtr ytr.
            text_files fs (path_join path [''wnids.txt'']) = Some ls \<and>
            load_train fs path dt (make_wnid_to_label (map strip ls)) (train_wnids dbg n ls)
              = Inr (Xtr, ytr) \<and>
            (\<forall>wnid\<in>set (train_wnids dbg n ls). \<exists>bl.
               text_files fs (boxes_file path wnid) = Some bl \<and>
               (\<forall>line\<in>set bl. \<exists>img.
                  image_files fs (train_image path wnid line) = Some (Some img))) \<and>
            mean_image r = (if sm then Some (mean_axis0 dt Xtr) else None)) \<and>
         X_train r = None \<and> y_train r = None \<and> X_val r = None \<and> y_val r = None \<and>
         (\<exists>Xt ns. load_test fs path dt = Inr (Xt, ns) \<and> test_image_names r = Some ns) \<and>
         (\<forall>v. load_tiny_imagenet
                 (fs\<lparr> text_files := (text_files fs)(val_manifest path := v) \<rparr>)
                 path False dt sm dbg n = Inr r)"
  using assms
proof (cases rule: load_tiny_imagenet_Inr)
  case (Loaded wnids w2w names Xtr ytr Xv yv Xt ns)
  from Loaded(1) obtain ls where
    ls: "text_files fs (path_join path [''wnids.txt'']) = Some ls" "wnids = map strip ls"
    by (auto simp: read_wnids_Inr)
  from Loaded(4) have tr:
    "load_train fs path dt (make_wnid_to_label (map strip ls)) (train_wnids dbg n ls)
       = Inr (Xtr, ytr)"
    unfolding ls(2) .
  note pres = load_train_present [OF tr]
  have m: "mean_image r = (if sm then Some (mean_axis0 dt Xtr) else None)"
    by (simp add: Loaded(8))
  have none: "X_train r = None" "y_train r = None" "X_val r = None" "y_val r = None"
    by (simp_all add: Loaded(8))
  from Loaded(6) have "load_test fs path dt = Inr (Xt, ns)"
    by simp
  moreover have "test_image_names r = Some ns"
    by (simp add: Loaded(8))
  ultimately have t: "\<exists>Xt ns. load_test fs path dt = Inr (Xt, ns) \<and> test_image_names r = Some ns"
    by blast
  have v: "\<forall>v. load_tiny_imagenet
                 (fs\<lparr> text_files := (text_files fs)(val_manifest path := v) \<rparr>)
                 path False dt sm dbg n = Inr r"
    by (simp add: test_mode_ignores_val_manifest assms)
  have a: "\<exists>ls Xtr ytr.
            text_files fs (path_join path [''wnids.txt'']) = Some ls \<and>
            load_train fs path dt (make_wnid_to_label (map strip ls)) (train_wnids dbg n ls)
              = Inr (Xtr, ytr) \<and>
            (\<forall>wnid\<in>set (train_wnids dbg n ls). \<exists>bl.
               text_files fs (boxes_file path wnid) = Some bl \<and>
               (\<forall>line\<in>set bl. \<exists>img.
                  image_files fs (train_image path wnid line) = Some (Some img))) \<and>
            mean_image r = (if sm then Some (mean_axis0 dt Xtr) else None)"
    by (rule exI [of _ ls], rule exI [of _ Xtr], rule exI [of _ ytr])
       (rule conjI [OF ls(1) conjI [OF tr conjI [OF pres m]]])
  show ?thesis
    by (rule conjI [OF a conjI [OF none(1) conjI [OF none(2) conjI [OF none(3)
          conjI [OF none(4) conjI [OF t v]]]]]])
qed

theorem test_mode_reads_training_witness:
  "load_tiny_imagenet fx ''d'' False dt_real False False 3
     = Inr (fx_test_result\<lparr> X_test := Some [replicate slot_size 1], mean_image := None \<rparr>) \<and>
   (\<exists>ls Xtr ytr.
      text_files fx (path_join ''d'' [''wnids.txt'']) = Some ls \<and>
      load_train fx ''d'' dt_real (make_wnid_to_label (map strip ls)) (train_wnids False 3 ls)
        = Inr (Xtr, ytr) \<and>
      (\<forall>wnid\<in>set (train_wnids False 3 ls). \<exists>bl.
         text_files fx (boxes_file ''d'' wnid) = Some bl \<and>
         (\<forall>line\<in>set bl. \<exists>img.
            image_files fx (train_image ''d'' wnid line) = Some (Some img))) \<and>
      mean_image (fx_test_result\<lparr> X_test := Some [replicate slot_size 1], mean_image := None \<rparr>)
        = (if False then Some (mean_axis0 dt_real Xtr) else None)) \<and>
   (\<exists>Xt ns. load_test fx ''d'' dt_real = Inr (Xt, ns) \<and>
      test_image_names
        (fx_test_result\<lparr> X_test := Some [replicate slot_size 1], mean_image := None \<rparr>)
        = Some ns) \<and>
   load_tiny_imagenet
     (fx\<lparr> text_files := (text_files fx)(val_manifest ''d'' := None) \<rparr>)
     ''d'' False dt_real False False 3
     = Inr (fx_test_result\<lparr> X_test := Some [replicate slot_size 1], mean_image := None \<rparr>)"
proof -
  have h: "load_tiny_imagenet fx ''d'' False dt_real False False 3
     = Inr (fx_test_result\<lparr> X_test := Some [replicate slot_size 1], mean_image := None \<rparr>)"
    by (simp add: load_tiny_imagenet_def fx_data_test rbind_def fx_test_result_def)
  note t = test_mode_reads_training [OF h]
  show ?thesis
    by (rule conjI [OF h conjI [OF t [THEN conjunct1]
          conjI [OF t [THEN conjunct2, THEN conjunct2, THEN conjunct2, THEN conjunct2,
                       THEN conjunct2, THEN conjunct1]
                 t [THEN conjunct2, THEN conjunct2, THEN conjunct2, THEN conjunct2,
                    THEN conjunct2, THEN conjunct2, THEN spec, of None]]]])
qed

text \<open>
  C3 as stated fails: with \<open>is_training = False\<close> and \<open>subtract_mean = False\<close> the loader
  still reads the training manifests. On the fixture the load returns; without the box
  manifest of class \<^verbatim>\<open>a\<close> the same call is the error \<open>FileNotFound\<close> of that manifest.
\<close>

theorem test_mode_reads_training_counterexample:
  "\<not> (\<forall>fs path (dt :: real dtype) dbg n wnid.
        load_tiny_imagenet (fs\<lparr> text_files := (text_files fs)(boxes_file path wnid := None) \<rparr>)
          path False dt False dbg n
        = load_tiny_imagenet fs path False dt False dbg n)"
proof
  assume a: "\<forall>fs path (dt :: real dtype) dbg n wnid.
        load_tiny_imagenet (fs\<lparr> text_files := (text_files fs)(boxes_file path wnid := None) \<rparr>)
          path False dt False dbg n
        = load_tiny_imagenet fs path False dt False dbg n"
  have h: "load_tiny_imagenet fx ''d'' False dt_real False False 3
     = Inr (fx_test_result\<lparr> X_test := Some [replicate slot_size 1], mean_image := None \<rparr>)"
    by (simp add: load_tiny_imagenet_def fx_data_test rbind_def fx_test_result_def)
  have w: "read_wnids fx_no_boxes ''d'' = Inr [''a'', ''b'']"
    by (simp add: read_wnids_def io_defs fx_defs fx_no_boxes_def)
  have s: "read_words fx_no_boxes ''d'' = Inr [(''a'', [''cat'', ''kitty'']), (''b'', [''dog''])]"
    by (simp add: read_words_def io_defs fx_defs fx_no_boxes_def)
  have c: "load_train_class fx_no_boxes ''d'' dt_real [(''a'', 0), (''b'', Suc 0)] ''a''
             = Inl (FileNotFound ''d/train/a/a_boxes.txt'')"
    by (simp add: load_train_class_def io_defs fx_defs fx_no_boxes_def)
  have t: "load_train fx_no_boxes ''d'' dt_real [(''a'', 0), (''b'', Suc 0)] [''a'', ''b'']
             = Inl (FileNotFound ''d/train/a/a_boxes.txt'')"
    by (simp add: load_train_def c rbind_def)
  have "load_data fx_no_boxes ''d'' False dt_real False 3
          = Inl (FileNotFound ''d/train/a/a_boxes.txt'')"
    by (simp add: load_data_def w s fx_w2l t rbind_def dict_get_def)
  then have e: "load_tiny_imagenet fx_no_boxes ''d'' False dt_real False False 3
          = Inl (FileNotFound ''d/train/a/a_boxes.txt'')"
    by (simp add: load_tiny_imagenet_def rbind_def)
  from a [rule_format, where fs = fx and path = "''d''" and dt = dt_real and dbg = False
            and n = 3 and wnid = "''a''"]
  have "load_tiny_imagenet fx_no_boxes ''d'' False dt_real False False 3
                 = load_tiny_imagenet fx ''d'' False dt_real False False 3"
    unfolding fx_no_boxes_def .
  with h e show False by simp
qed

end
